theory Spec2Isabelle
  imports Main "HOL-Library.Sublist"
begin

section \<open>Data model\<close>

text \<open>
  The graph records handled by \<^verbatim>\<open>frontend/app.py\<close> and
  \<^verbatim>\<open>frontend/cytoscape_graph.py\<close> are Python dictionaries decoded from JSON.
  A dictionary with a fixed set of keys is a record whose fields are optional: \<open>None\<close>
  stands for an absent key, which is what \<^verbatim>\<open>d.get(k)\<close> returns for it, and
  \<^verbatim>\<open>d.get(k, default)\<close> is \<open>dict_get\<close> below.

  A value is \<^verbatim>\<open>None\<close>, a boolean, an integer, a string or a list of values.
  Floating-point numbers and nested dictionaries are outside the model. A Python string
  is a list of code points; the model keeps the code points below 256 (\<open>char\<close>).
\<close>

datatype pyval = PNone | PBool bool | PInt int | PStr string | PList "pyval list"

record node =
  element_id :: "string option"
  labels :: "pyval list option"
  properties :: "(string \<times> pyval) list option"

record relationship =
  rel_element_id :: "string option"
  start_node_element_id :: "string option"
  end_node_element_id :: "string option"
  rel_type :: "string option"

text \<open>\<^verbatim>\<open>d.get(k, default)\<close> on an optional field.\<close>

definition dict_get :: "'a option \<Rightarrow> 'a \<Rightarrow> 'a" where
  "dict_get field dflt = (case field of None \<Rightarrow> dflt | Some v \<Rightarrow> v)"

section \<open>Python primitives used by the code\<close>

text \<open>
  Exceptions are values. On the data model above the modelled code raises
  \<^verbatim>\<open>TypeError\<close> in two places: \<^verbatim>\<open>color_scheme.get(labels[0], ...)\<close> on a first
  label that is a list, which cannot be hashed, and \<^verbatim>\<open>', '.join(labels)\<close> on a label
  that is not a string. \<open>exn_str\<close> is \<^verbatim>\<open>str(e)\<close>.
\<close>

datatype exn = TypeError string

fun exn_str :: "exn \<Rightarrow> string" where
  "exn_str (TypeError msg) = msg"

definition bslash :: char where
  "bslash = CHR 0x5C"

definition dquote :: char where
  "dquote = CHR 0x22"

text \<open>Truthiness, as \<^verbatim>\<open>if value\<close> and \<^verbatim>\<open>a or b\<close> test it.\<close>

fun truthy :: "pyval \<Rightarrow> bool" where
  "truthy PNone = False"
| "truthy (PBool b) = b"
| "truthy (PInt i) = (i \<noteq> 0)"
| "truthy (PStr s) = (s \<noteq> [])"
| "truthy (PList xs) = (xs \<noteq> [])"

definition py_or :: "pyval \<Rightarrow> pyval \<Rightarrow> pyval" where
  "py_or a b = (if truthy a then a else b)"

text \<open>\<^verbatim>\<open>d.get(key)\<close> on a property dictionary: the value, or \<^verbatim>\<open>None\<close>.\<close>

definition props_get :: "(string \<times> pyval) list \<Rightarrow> string \<Rightarrow> pyval" where
  "props_get props key = (case map_of props key of None \<Rightarrow> PNone | Some v \<Rightarrow> v)"

text \<open>\<^verbatim>\<open>str(n)\<close> for integers: decimal digits, with a minus sign.\<close>

definition digit_char :: "nat \<Rightarrow> char" where
  "digit_char d = ''0123456789'' ! d"

definition hex_char :: "nat \<Rightarrow> char" where
  "hex_char d = ''0123456789abcdef'' ! d"

function str_nat :: "nat \<Rightarrow> string" where
  "str_nat n = (if n < 10 then [digit_char n] else str_nat (n div 10) @ [digit_char (n mod 10)])"
  by pat_completeness auto

termination
  by (relation "measure (\<lambda>n. n)") auto

declare str_nat.simps [simp del]

definition str_int :: "int \<Rightarrow> string" where
  "str_int i = (if i < 0 then CHR ''-'' # str_nat (nat (- i)) else str_nat (nat i))"

text \<open>
  \<^verbatim>\<open>repr(s)\<close> of a string, which \<^verbatim>\<open>str\<close> of a list uses for its items. The
  quote is the double quote when the string has a single quote and no double quote, the
  single quote otherwise. The quote and the backslash get a backslash; tab, newline and
  carriage return are written \<^verbatim>\<open>\t\<close>, \<^verbatim>\<open>\n\<close>, \<^verbatim>\<open>\r\<close>; every other character
  that is not printable is written \<^verbatim>\<open>\xhh\<close>. Below 256 the printable characters are
  those from the space to the tilde and those from 161 on, the soft hyphen 173 excepted.
\<close>

definition repr_quote :: "string \<Rightarrow> char" where
  "repr_quote s = (if CHR 0x27 \<in> set s \<and> dquote \<notin> set s then dquote else CHR 0x27)"

definition printable :: "char \<Rightarrow> bool" where
  "printable c =
     ((32 \<le> (of_char c :: nat) \<and> (of_char c :: nat) < 127)
      \<or> (161 \<le> (of_char c :: nat) \<and> (of_char c :: nat) \<noteq> 173))"

definition repr_char :: "char \<Rightarrow> char \<Rightarrow> string" where
  "repr_char quote c =
     (if c = quote \<or> c = bslash then [bslash, c]
      else if c = CHR 0x09 then [bslash, CHR ''t'']
      else if c = CHR 0x0A then [bslash, CHR ''n'']
      else if c = CHR 0x0D then [bslash, CHR ''r'']
      else if \<not> printable c
           then [bslash, CHR ''x'', hex_char (of_char c div 16), hex_char (of_char c mod 16)]
      else [c])"

definition repr_str :: "string \<Rightarrow> string" where
  "repr_str s = repr_quote s # concat (map (repr_char (repr_quote s)) s) @ [repr_quote s]"

text \<open>\<^verbatim>\<open>sep.join(parts)\<close> on a list of strings.\<close>

fun join_strs :: "string \<Rightarrow> string list \<Rightarrow> string" where
  "join_strs sep [] = []"
| "join_strs sep [x] = x"
| "join_strs sep (x # y # ys) = x @ sep @ join_strs sep (y # ys)"

text \<open>\<^verbatim>\<open>repr(value)\<close> and \<^verbatim>\<open>str(value)\<close>; they differ on strings only.\<close>

fun py_repr :: "pyval \<Rightarrow> string" where
  "py_repr PNone = ''None''"
| "py_repr (PBool b) = (if b then ''True'' else ''False'')"
| "py_repr (PInt i) = str_int i"
| "py_repr (PStr s) = repr_str s"
| "py_repr (PList xs) = ''['' @ join_strs '', '' (map py_repr xs) @ '']''"

fun py_str :: "pyval \<Rightarrow> string" where
  "py_str PNone = ''None''"
| "py_str (PBool b) = (if b then ''True'' else ''False'')"
| "py_str (PInt i) = str_int i"
| "py_str (PStr s) = s"
| "py_str (PList xs) = py_repr (PList xs)"

fun type_name :: "pyval \<Rightarrow> string" where
  "type_name PNone = ''NoneType''"
| "type_name (PBool b) = ''bool''"
| "type_name (PInt i) = ''int''"
| "type_name (PStr s) = ''str''"
| "type_name (PList xs) = ''list''"

text \<open>
  \<^verbatim>\<open>s.replace(old, new)\<close>: the occurrences of \<open>old\<close> are replaced from left to
  right, without overlap. With an empty \<open>old\<close>, \<open>new\<close> is put before every
  character and at the end.
\<close>

function py_replace :: "string \<Rightarrow> string \<Rightarrow> string \<Rightarrow> string" where
  "py_replace old new [] = (if old = [] then new else [])"
| "py_replace old new (c # cs) =
     (if old = [] then new @ c # py_replace old new cs
      else if take (length old) (c # cs) = old
           then new @ py_replace old new (drop (length old) (c # cs))
           else c # py_replace old new cs)"
  by pat_completeness auto

termination
  by (relation "measure (\<lambda>(old, new, s). length s)") auto

text \<open>
  \<^verbatim>\<open>html.escape(s)\<close> of the standard library, with its default \<^verbatim>\<open>quote=True\<close>:
  five replacements in this order, the ampersand first.
\<close>

definition html_escape :: "string \<Rightarrow> string" where
  "html_escape s =
     py_replace [CHR 0x27] ''&#x27;''
       (py_replace [dquote] ''&quot;''
         (py_replace ''>'' ''&gt;''
           (py_replace ''<'' ''&lt;''
             (py_replace ''&'' ''&amp;'' s))))"


text \<open>
  \<^verbatim>\<open>sep.join(items)\<close> on a list of values: the first item that is not a string
  raises \<^verbatim>\<open>TypeError\<close>, whose message names its index and its type.
\<close>

fun check_strs :: "nat \<Rightarrow> pyval list \<Rightarrow> exn + string list" where
  "check_strs i [] = Inr []"
| "check_strs i (PStr s # vs) =
     (case check_strs (Suc i) vs of Inl e \<Rightarrow> Inl e | Inr ss \<Rightarrow> Inr (s # ss))"
| "check_strs i (v # vs) =
     Inl (TypeError (''sequence item '' @ str_nat i @ '': expected str instance, ''
                     @ type_name v @ '' found''))"

definition py_join :: "string \<Rightarrow> pyval list \<Rightarrow> exn + string" where
  "py_join sep items =
     (case check_strs 0 items of Inl e \<Rightarrow> Inl e | Inr ss \<Rightarrow> Inr (join_strs sep ss))"

subsection \<open>\<^verbatim>\<open>json.dumps\<close>\<close>

text \<open>
  JSON values as \<^verbatim>\<open>json.dumps\<close> receives them. A dictionary keeps its insertion
  order. The floating-point constants of the layout table are carried as the text of
  their \<^verbatim>\<open>repr\<close>, which is what \<^verbatim>\<open>json.dumps\<close> writes for a finite float.
\<close>

datatype json =
    JNull
  | JBool bool
  | JInt int
  | JFloat string
  | JStr string
  | JList "json list"
  | JDict "(string \<times> json) list"

text \<open>
  String encoding with \<^verbatim>\<open>ensure_ascii=True\<close>: the quote, the backslash and every
  character outside \<^verbatim>\<open>' '..'~'\<close> are escaped.
\<close>

definition json_escape_char :: "char \<Rightarrow> string" where
  "json_escape_char c =
     (if c = dquote then [bslash, dquote]
      else if c = bslash then [bslash, bslash]
      else if c = CHR 0x0A then [bslash, CHR ''n'']
      else if c = CHR 0x0D then [bslash, CHR ''r'']
      else if c = CHR 0x09 then [bslash, CHR ''t'']
      else if c = CHR 0x08 then [bslash, CHR ''b'']
      else if c = CHR 0x0C then [bslash, CHR ''f'']
      else if (of_char c :: nat) < 32 \<or> 126 < (of_char c :: nat)
           then [bslash, CHR ''u'', CHR ''0'', CHR ''0'',
                 hex_char (of_char c div 16), hex_char (of_char c mod 16)]
      else [c])"

definition json_string :: "string \<Rightarrow> string" where
  "json_string s = dquote # concat (map json_escape_char s) @ [dquote]"

fun json_dumps :: "json \<Rightarrow> string" where
  "json_dumps JNull = ''null''"
| "json_dumps (JBool b) = (if b then ''true'' else ''false'')"
| "json_dumps (JInt i) = str_int i"
| "json_dumps (JFloat r) = r"
| "json_dumps (JStr s) = json_string s"
| "json_dumps (JList xs) = ''['' @ join_strs '', '' (map json_dumps xs) @ '']''"
| "json_dumps (JDict kvs) =
     ''{'' @ join_strs '', '' (map (\<lambda>kv. json_string (fst kv) @ '': '' @ json_dumps (snd kv)) kvs)
       @ ''}''"

fun json_of_pyval :: "pyval \<Rightarrow> json" where
  "json_of_pyval PNone = JNull"
| "json_of_pyval (PBool b) = JBool b"
| "json_of_pyval (PInt i) = JInt i"
| "json_of_pyval (PStr s) = JStr s"
| "json_of_pyval (PList xs) = JList (map json_of_pyval xs)"

section \<open>Visibility computation (\<^verbatim>\<open>get_visible_nodes\<close> in app.py)\<close>

text \<open>
  The three loops of \<^verbatim>\<open>get_visible_nodes\<close> are folds over the input lists. The
  state of the first loop is the pair \<open>(visible_node_ids, document_ids)\<close>; the second
  and third loops only grow \<open>visible_node_ids\<close>. The sets hold whatever
  \<^verbatim>\<open>node.get('element_id')\<close> returns, so their elements are optional strings.
\<close>

definition add_document :: "node \<Rightarrow> string option set \<times> string option set
    \<Rightarrow> string option set \<times> string option set" where
  "add_document nd st =
     (let lbls = dict_get (labels nd) [] in
      if lbls \<noteq> [] \<and> hd lbls = PStr ''Document''
      then (insert (element_id nd) (fst st), insert (element_id nd) (snd st))
      else st)"

definition add_neighbours :: "string option set \<Rightarrow> relationship \<Rightarrow> string option set
    \<Rightarrow> string option set" where
  "add_neighbours anchors rel visible_node_ids =
     (let start_id = dict_get (start_node_element_id rel) '''';
          end_id = dict_get (end_node_element_id rel) '''';
          v1 = (if Some start_id \<in> anchors then insert (Some end_id) visible_node_ids
                else visible_node_ids)
      in if Some end_id \<in> anchors then insert (Some start_id) v1 else v1)"

definition visible_ids :: "node list \<Rightarrow> relationship list \<Rightarrow> string set
    \<Rightarrow> string option set" where
  "visible_ids all_nodes all_relationships expanded_node_ids =
     (let (visible1, document_ids) = fold add_document all_nodes ({}, {});
          visible2 = fold (add_neighbours document_ids) all_relationships visible1
      in if expanded_node_ids \<noteq> {}
         then fold (add_neighbours (Some ` expanded_node_ids)) all_relationships visible2
         else visible2)"

definition get_visible_nodes :: "node list \<Rightarrow> relationship list \<Rightarrow> string set \<Rightarrow> string
    \<Rightarrow> node list \<times> relationship list" where
  "get_visible_nodes all_nodes all_relationships expanded_node_ids view_type =
     (if view_type = ''schema'' then (all_nodes, all_relationships)
      else
        let visible_node_ids = visible_ids all_nodes all_relationships expanded_node_ids
        in (filter (\<lambda>nd. element_id nd \<in> visible_node_ids) all_nodes,
            filter (\<lambda>rel. start_node_element_id rel \<in> visible_node_ids
                        \<and> end_node_element_id rel \<in> visible_node_ids) all_relationships))"

section \<open>Element mapping and payload (cytoscape_graph.py)\<close>

subsection \<open>The tables \<^verbatim>\<open>COLOR_SCHEME\<close> and \<^verbatim>\<open>LAYOUT_CONFIGS\<close>\<close>

definition COLOR_SCHEME :: "(string \<times> string) list" where
  "COLOR_SCHEME =
     [(''Document'', ''#3b82f6''),
      (''Chunk'', ''#8b5cf6''),
      (''Person'', ''#10b981''),
      (''Organization'', ''#f59e0b''),
      (''Location'', ''#ef4444''),
      (''Event'', ''#ec4899''),
      (''Concept'', ''#06b6d4''),
      (''Technology'', ''#8b5cf6''),
      (''__Community__'', ''#64748b''),
      (''__Entity__'', ''#94a3b8'')]"

definition LAYOUT_CONFIGS :: "(string \<times> json) list" where
  "LAYOUT_CONFIGS =
     [(''cola'', JDict
        [(''name'', JStr ''cola''),
         (''animate'', JBool True),
         (''animationDuration'', JInt 1000),
         (''maxSimulationTime'', JInt 4000),
         (''ungrabifyWhileSimulating'', JBool True),
         (''fit'', JBool True),
         (''avoidOverlap'', JBool True),
         (''handleDisconnected'', JBool True),
         (''convergenceThreshold'', JFloat ''0.01''),
         (''nodeSpacing'', JInt 50)]),
      (''cose'', JDict
        [(''name'', JStr ''cose''),
         (''animate'', JBool True),
         (''animationDuration'', JInt 1000),
         (''animationEasing'', JStr ''ease-out''),
         (''nodeRepulsion'', JInt 400000),
         (''idealEdgeLength'', JInt 100),
         (''edgeElasticity'', JInt 100),
         (''gravity'', JInt 80),
         (''numIter'', JInt 1000),
         (''initialTemp'', JInt 200),
         (''coolingFactor'', JFloat ''0.95''),
         (''minTemp'', JFloat ''1.0'')]),
      (''dagre'', JDict
        [(''name'', JStr ''dagre''),
         (''animate'', JBool True),
         (''animationDuration'', JInt 800),
         (''rankDir'', JStr ''TB''),
         (''ranker'', JStr ''tight-tree''),
         (''nodeSep'', JInt 50),
         (''edgeSep'', JInt 10),
         (''rankSep'', JInt 75),
         (''fit'', JBool True),
         (''padding'', JInt 30)]),
      (''circle'', JDict
        [(''name'', JStr ''circle''),
         (''animate'', JBool True),
         (''animationDuration'', JInt 800),
         (''animationEasing'', JStr ''ease-in-out-cubic''),
         (''avoidOverlap'', JBool True),
         (''startAngle'', JFloat ''4.71238898''),
         (''clockwise'', JBool True)]),
      (''random'', JDict
        [(''name'', JStr ''random''),
         (''animate'', JBool False),
         (''fit'', JBool True)])]"

text \<open>\<^verbatim>\<open>table.get(key, default)\<close> and \<^verbatim>\<open>key in table\<close> on such a table.\<close>

definition table_get :: "(string \<times> 'a) list \<Rightarrow> string \<Rightarrow> 'a \<Rightarrow> 'a" where
  "table_get table key dflt = (case map_of table key of None \<Rightarrow> dflt | Some v \<Rightarrow> v)"

definition table_has :: "(string \<times> 'a) list \<Rightarrow> string \<Rightarrow> bool" where
  "table_has table key = (map_of table key \<noteq> None)"

subsection \<open>\<^verbatim>\<open>_escape_property_value\<close>\<close>

fun escape_property_value :: "pyval \<Rightarrow> pyval" where
  "escape_property_value (PStr s) = PStr (html_escape s)"
| "escape_property_value v = v"

subsection \<open>\<^verbatim>\<open>_convert_to_cytoscape_format\<close>\<close>

text \<open>
  The dictionaries the function builds, \<^verbatim>\<open>{'data': {...}, 'classes': ...}\<close> for a node
  and \<^verbatim>\<open>{'data': {...}}\<close> for an edge, with the keys in the order of the source.
\<close>

record cy_node_data =
  cy_id :: string
  cy_label :: string
  cy_labels :: "pyval list"
  cy_color :: string
  cy_size :: int
  cy_tooltip :: string
  cy_properties :: "(string \<times> pyval) list"
  cy_expanded :: bool

record cy_node =
  node_data :: cy_node_data
  node_classes :: string

record cy_edge_data =
  ce_id :: string
  ce_source :: string
  ce_target :: string
  ce_label :: string

record cy_edge =
  edge_data :: cy_edge_data

record elements =
  el_nodes :: "cy_node list"
  el_edges :: "cy_edge list"

text \<open>
  The caption: \<^verbatim>\<open>properties.get('id') or properties.get('name') or
  properties.get('fileName') or (labels[0] if labels else 'Node')\<close>.
\<close>

definition node_caption :: "pyval list \<Rightarrow> (string \<times> pyval) list \<Rightarrow> pyval" where
  "node_caption lbls props =
     py_or (props_get props ''id'')
       (py_or (props_get props ''name'')
         (py_or (props_get props ''fileName'')
           (if lbls \<noteq> [] then hd lbls else PStr ''Node'')))"

text \<open>
  \<^verbatim>\<open>color_scheme.get(labels[0], '#94a3b8') if labels else '#94a3b8'\<close>. The lookup
  hashes the first label: a list cannot be hashed and raises \<^verbatim>\<open>TypeError\<close> (with the
  message of CPython up to 3.13). The keys of the table are strings, so any other first
  label that is not a string finds the default.
\<close>

definition unhashable_list :: exn where
  "unhashable_list = TypeError (''unhashable type: '' @ [CHR 0x27] @ ''list'' @ [CHR 0x27])"

definition node_color :: "(string \<times> string) list \<Rightarrow> pyval list \<Rightarrow> exn + string" where
  "node_color color_scheme lbls =
     (if lbls \<noteq> []
      then (case hd lbls of
              PStr l \<Rightarrow> Inr (table_get color_scheme l ''#94a3b8'')
            | PList xs \<Rightarrow> Inl unhashable_list
            | _ \<Rightarrow> Inr ''#94a3b8'')
      else Inr ''#94a3b8'')"

text \<open>The lines that the loop over \<^verbatim>\<open>properties.items()\<close> appends to the tooltip.\<close>

definition property_lines :: "(string \<times> pyval) list \<Rightarrow> string list" where
  "property_lines props =
     map (\<lambda>kv. fst kv @ '': '' @ take 100 (py_str (escape_property_value (snd kv))))
       (filter (\<lambda>kv. fst kv \<notin> set [''embedding'', ''text'', ''summary''] \<and> truthy (snd kv)) props)"

text \<open>
  The body of the loop over the nodes. The statements that can raise are the lookup of
  the colour and, after it, \<^verbatim>\<open>', '.join(labels)\<close>; what else precedes them has no
  effect outside the iteration.
\<close>

definition convert_node :: "(string \<times> string) list \<Rightarrow> string set \<Rightarrow> node \<Rightarrow> exn + cy_node" where
  "convert_node color_scheme expanded_nodes nd =
     (let node_id = dict_get (element_id nd) [];
          lbls = dict_get (labels nd) [];
          props = dict_get (properties nd) [];
          caption = node_caption lbls props
      in case node_color color_scheme lbls of
           Inl e \<Rightarrow> Inl e
         | Inr color \<Rightarrow>
      (case py_join '', '' lbls of
           Inl e \<Rightarrow> Inl e
         | Inr joined \<Rightarrow>
             let tooltip_parts =
                   [''<strong>'' @ py_str (escape_property_value caption) @ ''</strong>'',
                    ''Type: '' @ joined]
                   @ (if node_id \<in> expanded_nodes then [''<em>Expanded</em>''] else [])
                   @ property_lines props;
                 tooltip = join_strs ''<br>'' tooltip_parts;
                 size = (if node_id \<in> expanded_nodes then 25 else 20)
             in Inr \<lparr>node_data =
                       \<lparr>cy_id = node_id,
                        cy_label = take 30 (py_str caption),
                        cy_labels = lbls,
                        cy_color = color,
                        cy_size = size,
                        cy_tooltip = tooltip,
                        cy_properties = props,
                        cy_expanded = (node_id \<in> expanded_nodes)\<rparr>,
                     node_classes = (if node_id \<in> expanded_nodes then ''expanded'' else [])\<rparr>))"

fun convert_nodes :: "(string \<times> string) list \<Rightarrow> string set \<Rightarrow> node list \<Rightarrow> exn + cy_node list" where
  "convert_nodes color_scheme expanded_nodes [] = Inr []"
| "convert_nodes color_scheme expanded_nodes (nd # nds) =
     (case convert_node color_scheme expanded_nodes nd of
        Inl e \<Rightarrow> Inl e
      | Inr cy \<Rightarrow>
          (case convert_nodes color_scheme expanded_nodes nds of
             Inl e \<Rightarrow> Inl e
           | Inr cys \<Rightarrow> Inr (cy # cys)))"

text \<open>
  The loop over the relationships. \<open>node_ids\<close> is the set
  \<^verbatim>\<open>{node.get('element_id') for node in nodes}\<close>; an empty endpoint is falsy.
\<close>

definition convert_edge :: "string option set \<Rightarrow> relationship \<Rightarrow> cy_edge list" where
  "convert_edge node_ids rel =
     (let start_id = dict_get (start_node_element_id rel) [];
          end_id = dict_get (end_node_element_id rel) [];
          rel_ty = dict_get (rel_type rel) []
      in if start_id \<noteq> [] \<and> end_id \<noteq> [] \<and> Some start_id \<in> node_ids \<and> Some end_id \<in> node_ids
         then [\<lparr>edge_data =
                  \<lparr>ce_id = dict_get (rel_element_id rel) (start_id @ ''-'' @ end_id),
                   ce_source = start_id,
                   ce_target = end_id,
                   ce_label = rel_ty\<rparr>\<rparr>]
         else [])"

definition convert_to_cytoscape_format :: "node list \<Rightarrow> relationship list \<Rightarrow> string set
    \<Rightarrow> (string \<times> string) list \<Rightarrow> exn + elements" where
  "convert_to_cytoscape_format nodes relationships expanded_nodes color_scheme =
     (case convert_nodes color_scheme expanded_nodes nodes of
        Inl e \<Rightarrow> Inl e
      | Inr cy_nodes \<Rightarrow>
          let node_ids = set (map element_id nodes)
          in Inr \<lparr>el_nodes = cy_nodes,
                  el_edges = concat (map (convert_edge node_ids) relationships)\<rparr>)"

subsection \<open>Serialisation and the three payloads\<close>

text \<open>The elements as the JSON value \<^verbatim>\<open>json.dumps(elements)\<close> walks.\<close>

definition json_of_cy_node :: "cy_node \<Rightarrow> json" where
  "json_of_cy_node cy =
     JDict [(''data'', JDict
              [(''id'', JStr (cy_id (node_data cy))),
               (''label'', JStr (cy_label (node_data cy))),
               (''labels'', JList (map json_of_pyval (cy_labels (node_data cy)))),
               (''color'', JStr (cy_color (node_data cy))),
               (''size'', JInt (cy_size (node_data cy))),
               (''tooltip'', JStr (cy_tooltip (node_data cy))),
               (''properties'',
                  JDict (map (\<lambda>kv. (fst kv, json_of_pyval (snd kv))) (cy_properties (node_data cy)))),
               (''expanded'', JBool (cy_expanded (node_data cy)))]),
            (''classes'', JStr (node_classes cy))]"

definition json_of_cy_edge :: "cy_edge \<Rightarrow> json" where
  "json_of_cy_edge ce =
     JDict [(''data'', JDict
              [(''id'', JStr (ce_id (edge_data ce))),
               (''source'', JStr (ce_source (edge_data ce))),
               (''target'', JStr (ce_target (edge_data ce))),
               (''label'', JStr (ce_label (edge_data ce)))])]"

definition json_of_elements :: "elements \<Rightarrow> json" where
  "json_of_elements els =
     JDict [(''nodes'', JList (map json_of_cy_node (el_nodes els))),
            (''edges'', JList (map json_of_cy_edge (el_edges els)))]"

text \<open>
  The three templates are f-strings: constant markup around the interpolated values. A
  payload is the template that produced it together with the text put into its holes, in
  the order of the holes: \<open>Graph_html\<close> for \<^verbatim>\<open>_build_html_template\<close> (the height,
  the elements, the layout), \<open>Empty_html\<close> for \<^verbatim>\<open>_build_empty_graph_template\<close> and
  \<open>Error_html\<close> for \<^verbatim>\<open>_build_error_template\<close> (the escaped message). The constant
  markup is not reproduced.
\<close>

datatype html =
    Graph_html (graph_height: string) (graph_elements: string) (graph_layout: string)
  | Empty_html string
  | Error_html string

text \<open>\<^verbatim>\<open>.replace('</', '<\\/')\<close>: the replacement text is the three characters
  \<^verbatim>\<open><\/\<close>.\<close>

definition script_safe :: "string \<Rightarrow> string" where
  "script_safe s = py_replace ''</'' [CHR ''<'', bslash, CHR ''/''] s"

definition build_html_template :: "elements \<Rightarrow> string \<Rightarrow> string \<Rightarrow> int \<Rightarrow> html" where
  "build_html_template els layout view_type height =
     (let layout_config = table_get LAYOUT_CONFIGS layout (table_get LAYOUT_CONFIGS ''cola'' JNull);
          elements_json = script_safe (json_dumps (json_of_elements els));
          layout_json = script_safe (json_dumps layout_config)
      in Graph_html (str_int height) elements_json layout_json)"

definition build_empty_graph_template :: "string \<Rightarrow> html" where
  "build_empty_graph_template message = Empty_html (html_escape message)"

definition build_error_template :: "string \<Rightarrow> html" where
  "build_error_template error_message = Error_html (html_escape error_message)"

subsection \<open>\<^verbatim>\<open>render_cytoscape_graph\<close>\<close>

text \<open>
  The calls of \<^verbatim>\<open>logging\<close> are the first component of the result, in the order
  they are made. The \<^verbatim>\<open>try\<close> block is the case distinction on the result of the
  mapping: an exception leaves through the \<^verbatim>\<open>except\<close> clause, which logs it and
  returns the error template. \<open>None\<close> for \<open>expanded_nodes\<close> is the default argument.
\<close>

datatype log_record = LogWarning string | LogInfo string | LogError string

definition render_cytoscape_graph :: "node list \<Rightarrow> relationship list \<Rightarrow> string
    \<Rightarrow> string set option \<Rightarrow> string \<Rightarrow> int \<Rightarrow> log_record list \<times> html" where
  "render_cytoscape_graph nodes relationships layout expanded_nodes view_type height =
     (if nodes = []
      then ([], build_empty_graph_template
                  ''No nodes to display. Upload and extract documents first.'')
      else
        let capped = (view_type = ''schema'' \<and> 100 < length nodes);
            log1 = (if capped
                    then [LogWarning (''Schema has '' @ str_nat (length nodes)
                            @ '' nodes, limiting to 100 to prevent browser crash'')]
                    else []);
            nodes1 = (if capped then take 100 nodes else nodes);
            relationships1 =
              (if capped
               then filter (\<lambda>r. start_node_element_id r \<in> set (map element_id nodes1)
                              \<and> end_node_element_id r \<in> set (map element_id nodes1)) relationships
               else relationships);
            unknown = (\<not> table_has LAYOUT_CONFIGS layout);
            log2 = (if unknown
                    then [LogWarning (''Unknown layout: '' @ layout @ '', falling back to ''
                            @ [CHR 0x27] @ ''cola'' @ [CHR 0x27])]
                    else []);
            layout1 = (if unknown then ''cola'' else layout);
            dense = (view_type = ''schema'' \<and> 50 < length nodes1 \<and> layout1 = ''dagre'');
            log3 = (if dense
                    then [LogInfo (''Schema has '' @ str_nat (length nodes1)
                            @ '' nodes, using circular layout instead of dagre'')]
                    else []);
            layout2 = (if dense then ''circle'' else layout1);
            expanded = (case expanded_nodes of None \<Rightarrow> {} | Some ex \<Rightarrow> ex)
        in case convert_to_cytoscape_format nodes1 relationships1 expanded COLOR_SCHEME of
             Inl e \<Rightarrow>
               (log1 @ log2 @ log3 @ [LogError (''Error rendering Cytoscape graph: '' @ exn_str e)],
                build_error_template (exn_str e))
           | Inr els \<Rightarrow>
               (log1 @ log2 @ log3, build_html_template els layout2 view_type height))"

section \<open>Vocabulary of the statements\<close>

subsection \<open>Visibility\<close>

text \<open>
  Vocabulary for stating what the loops compute. A node is a document when its label list
  is non-empty and starts with \<^verbatim>\<open>'Document'\<close>. The endpoints of a relationship
  are read as the loops read them, with the default \<^verbatim>\<open>''\<close> for an absent key.
\<close>

definition is_document :: "node \<Rightarrow> bool" where
  "is_document nd =
     (case dict_get (labels nd) [] of [] \<Rightarrow> False | l # _ \<Rightarrow> l = PStr ''Document'')"

definition document_ids :: "node list \<Rightarrow> string option set" where
  "document_ids all_nodes = set (map element_id (filter is_document all_nodes))"

definition start_of :: "relationship \<Rightarrow> string" where
  "start_of rel = dict_get (start_node_element_id rel) []"

definition end_of :: "relationship \<Rightarrow> string" where
  "end_of rel = dict_get (end_node_element_id rel) []"

definition other_endpoints :: "string option set \<Rightarrow> relationship list \<Rightarrow> string option set" where
  "other_endpoints anchors rels =
     set (map (\<lambda>rel. Some (end_of rel)) (filter (\<lambda>rel. Some (start_of rel) \<in> anchors) rels))
     \<union> set (map (\<lambda>rel. Some (start_of rel)) (filter (\<lambda>rel. Some (end_of rel) \<in> anchors) rels))"

definition node_ids_of :: "node list \<Rightarrow> string option set" where
  "node_ids_of ns = set (map element_id ns)"

subsection \<open>Element mapping\<close>

text \<open>The fields of a node as the element mapping reads them, defaults included.\<close>

definition node_id :: "node \<Rightarrow> string" where
  "node_id nd = dict_get (element_id nd) []"

definition node_labels :: "node \<Rightarrow> pyval list" where
  "node_labels nd = dict_get (labels nd) []"

definition node_props :: "node \<Rightarrow> (string \<times> pyval) list" where
  "node_props nd = dict_get (properties nd) []"

text \<open>
  The data model of the specification has string labels; \<open>labels_are_strings\<close> says so
  of a node.
\<close>

fun is_str :: "pyval \<Rightarrow> bool" where
  "is_str (PStr s) = True"
| "is_str v = False"

definition labels_are_strings :: "node \<Rightarrow> bool" where
  "labels_are_strings nd = list_all is_str (node_labels nd)"

text \<open>The colour of a node whose labels are strings.\<close>

definition label_color :: "(string \<times> string) list \<Rightarrow> pyval list \<Rightarrow> string" where
  "label_color color_scheme lbls =
     (case lbls of PStr l # _ \<Rightarrow> table_get color_scheme l ''#94a3b8'' | _ \<Rightarrow> ''#94a3b8'')"

text \<open>
  The exception of the mapping in words: the labels of a node raise when the first label
  is a list, and otherwise when some label is not a string, the first such label being
  named in the message with its index and its type. The mapping of a node list raises for
  the first node whose labels raise.
\<close>

definition label_error :: "pyval list \<Rightarrow> string option" where
  "label_error lbls =
     (case lbls of
        PList xs # _ \<Rightarrow> Some (''unhashable type: '' @ [CHR 0x27] @ ''list'' @ [CHR 0x27])
      | _ \<Rightarrow>
          (case find (\<lambda>iv. \<not> is_str (snd iv)) (enumerate 0 lbls) of
             None \<Rightarrow> None
           | Some iv \<Rightarrow>
               Some (''sequence item '' @ str_nat (fst iv) @ '': expected str instance, ''
                     @ type_name (snd iv) @ '' found'')))"

definition first_label_error :: "node list \<Rightarrow> string option" where
  "first_label_error nodes =
     (case find (\<lambda>nd. \<not> labels_are_strings nd) nodes of
        None \<Rightarrow> None
      | Some nd \<Rightarrow> label_error (node_labels nd))"

text \<open>
  The caption in the words of the specification: the first of \<^verbatim>\<open>properties.id\<close>,
  \<^verbatim>\<open>properties.name\<close> and \<^verbatim>\<open>properties.fileName\<close> that holds a value (one
  that is present and truthy), then the first label, then the literal \<^verbatim>\<open>"Node"\<close>.
\<close>

definition caption_spec :: "node \<Rightarrow> pyval" where
  "caption_spec nd =
     (case filter truthy (map (props_get (node_props nd)) [''id'', ''name'', ''fileName'']) of
        v # _ \<Rightarrow> v
      | [] \<Rightarrow> (case node_labels nd of l # _ \<Rightarrow> l | [] \<Rightarrow> PStr ''Node''))"

text \<open>
  The text that reaches the tooltip for a caption or a property value:
  \<^verbatim>\<open>str(_escape_property_value(value))\<close>. \<open>html_escape_char\<close> is what
  \<^verbatim>\<open>html.escape\<close> does to one character.
\<close>

definition escaped_text :: "pyval \<Rightarrow> string" where
  "escaped_text v = py_str (escape_property_value v)"

definition html_escape_char :: "char \<Rightarrow> string" where
  "html_escape_char c =
     (if c = CHR ''&'' then ''&amp;''
      else if c = CHR ''<'' then ''&lt;''
      else if c = CHR ''>'' then ''&gt;''
      else if c = dquote then ''&quot;''
      else if c = CHR 0x27 then ''&#x27;''
      else [c])"

definition markup_chars :: "char set" where
  "markup_chars = {CHR ''<'', CHR ''>'', dquote, CHR 0x27}"

text \<open>Reading a JSON value: the value under a key of a dictionary, the items of a list.\<close>

definition json_field :: "json \<Rightarrow> string \<Rightarrow> json" where
  "json_field j key =
     (case j of
        JDict kvs \<Rightarrow> (case map_of kvs key of Some v \<Rightarrow> v | None \<Rightarrow> JNull)
      | _ \<Rightarrow> JNull)"

definition json_items :: "json \<Rightarrow> json list" where
  "json_items j = (case j of JList xs \<Rightarrow> xs | _ \<Rightarrow> [])"

definition properties_json :: "(string \<times> pyval) list \<Rightarrow> json" where
  "properties_json props = JDict (map (\<lambda>kv. (fst kv, json_of_pyval (snd kv))) props)"

subsection \<open>Rendering\<close>

text \<open>
  What \<^verbatim>\<open>render_cytoscape_graph\<close> hands to the element mapping: the node list and
  the relationship list after the safety limit, and the layout after the fallback and the
  density override.
\<close>

definition cap_nodes :: "string \<Rightarrow> node list \<Rightarrow> node list" where
  "cap_nodes view_type nodes =
     (if view_type = ''schema'' \<and> 100 < length nodes then take 100 nodes else nodes)"

definition cap_relationships :: "string \<Rightarrow> node list \<Rightarrow> relationship list \<Rightarrow> relationship list" where
  "cap_relationships view_type nodes relationships =
     (if view_type = ''schema'' \<and> 100 < length nodes
      then filter (\<lambda>r. start_node_element_id r \<in> node_ids_of (take 100 nodes)
                     \<and> end_node_element_id r \<in> node_ids_of (take 100 nodes)) relationships
      else relationships)"

text \<open>
  \<^verbatim>\<open>expanded_nodes or set()\<close>; the names of the preset table; the layout after
  the fallback and the density override; the log records, and the log before the mapping
  is called; the layout parameters of the \<^verbatim>\<open>cola\<close> preset as they are serialised;
  the message of the empty state.
\<close>

definition expanded_or_empty :: "string set option \<Rightarrow> string set" where
  "expanded_or_empty expanded_nodes = (case expanded_nodes of None \<Rightarrow> {} | Some ex \<Rightarrow> ex)"

definition preset_names :: "string set" where
  "preset_names = {''cola'', ''cose'', ''dagre'', ''circle'', ''random''}"

definition resolved_layout :: "string \<Rightarrow> node list \<Rightarrow> string \<Rightarrow> string" where
  "resolved_layout view_type nodes layout =
     (let layout1 = (if layout \<in> preset_names then layout else ''cola'')
      in if view_type = ''schema'' \<and> 50 < length (cap_nodes view_type nodes) \<and> layout1 = ''dagre''
         then ''circle'' else layout1)"

definition cap_warning :: "nat \<Rightarrow> log_record" where
  "cap_warning n =
     LogWarning (''Schema has '' @ str_nat n @ '' nodes, limiting to 100 to prevent browser crash'')"

definition unknown_layout_warning :: "string \<Rightarrow> log_record" where
  "unknown_layout_warning layout =
     LogWarning (''Unknown layout: '' @ layout @ '', falling back to '' @ [CHR 0x27] @ ''cola'' @ [CHR 0x27])"

definition dense_info :: "nat \<Rightarrow> log_record" where
  "dense_info n =
     LogInfo (''Schema has '' @ str_nat n @ '' nodes, using circular layout instead of dagre'')"

definition render_error_log :: "exn \<Rightarrow> log_record" where
  "render_error_log e = LogError (''Error rendering Cytoscape graph: '' @ exn_str e)"

definition render_log :: "string \<Rightarrow> node list \<Rightarrow> string \<Rightarrow> log_record list" where
  "render_log view_type nodes layout =
     (if view_type = ''schema'' \<and> 100 < length nodes then [cap_warning (length nodes)] else [])
     @ (if layout \<in> preset_names then [] else [unknown_layout_warning layout])
     @ (if view_type = ''schema'' \<and> 50 < length (cap_nodes view_type nodes)
           \<and> (if layout \<in> preset_names then layout else ''cola'') = ''dagre''
        then [dense_info (length (cap_nodes view_type nodes))] else [])"

definition cola_layout_json :: string where
  "cola_layout_json = script_safe (json_dumps (table_get LAYOUT_CONFIGS ''cola'' JNull))"

definition empty_state_message :: string where
  "empty_state_message = ''No nodes to display. Upload and extract documents first.''"

subsection \<open>Example data\<close>

definition ex_node :: "string \<Rightarrow> pyval list \<Rightarrow> (string \<times> pyval) list \<Rightarrow> node" where
  "ex_node i ls ps = \<lparr>element_id = Some i, labels = Some ls, properties = Some ps\<rparr>"

definition ex_rel :: "string \<Rightarrow> string \<Rightarrow> string \<Rightarrow> string \<Rightarrow> relationship" where
  "ex_rel i s t ty =
     \<lparr>rel_element_id = Some i, start_node_element_id = Some s,
      end_node_element_id = Some t, rel_type = Some ty\<rparr>"

text \<open>A document, its chunk, and a chain of two entities behind the chunk.\<close>

definition ex_d1 :: node where
  "ex_d1 = ex_node ''d1'' [PStr ''Document''] []"

definition ex_c1 :: node where
  "ex_c1 = ex_node ''c1'' [PStr ''Chunk''] []"

definition ex_e2 :: node where
  "ex_e2 = ex_node ''e2'' [PStr ''Person''] []"

definition ex_e3 :: node where
  "ex_e3 = ex_node ''e3'' [PStr ''Person''] []"

definition ex_nodes :: "node list" where
  "ex_nodes = [ex_d1, ex_c1, ex_e2, ex_e3]"

definition ex_rels :: "relationship list" where
  "ex_rels =
     [ex_rel ''r1'' ''d1'' ''c1'' ''HAS_CHUNK'',
      ex_rel ''r2'' ''c1'' ''e2'' ''MENTIONS'',
      ex_rel ''r3'' ''e2'' ''e3'' ''KNOWS'']"

text \<open>A relationship whose end is not a node of the list, next to a document.\<close>

definition ex_dangling :: relationship where
  "ex_dangling = ex_rel ''r9'' ''d1'' ''x'' ''MENTIONS''"

text \<open>A node whose label, property key and property value carry markup.\<close>

definition ex_markup :: node where
  "ex_markup = ex_node ''n1'' [PStr ''<i>''] [(''name'', PStr ''<b>x</b>''), (''<u>'', PStr ''v'')]"

text \<open>Nodes for the caption: each source of the caption in turn, and a long one.\<close>

definition ex_captions :: "node list" where
  "ex_captions =
     [ex_node ''n1'' [PStr ''Person''] [(''fileName'', PStr ''a.pdf''), (''name'', PStr ''Alice''), (''id'', PInt 7)],
      ex_node ''n2'' [PStr ''Person''] [(''id'', PStr []), (''fileName'', PStr ''a.pdf''), (''name'', PStr ''Alice'')],
      ex_node ''n3'' [PStr ''Person''] [(''id'', PInt 0), (''fileName'', PStr ''a.pdf'')],
      ex_node ''n4'' [PStr ''Person''] [(''title'', PStr ''x'')],
      \<lparr>element_id = Some ''n5'', labels = None, properties = None\<rparr>,
      ex_node ''n6'' [] [(''name'', PStr ''0123456789012345678901234567890123456789'')]]"

text \<open>A node that carries reserved keys, and a node with a label that is not a string.\<close>

definition ex_reserved :: node where
  "ex_reserved =
     ex_node ''n1'' [PStr ''Person'']
       [(''text'', PStr ''</script><b>''), (''embedding'', PStr ''e''), (''summary'', PStr ''s''),
        (''name'', PStr ''A'')]"

definition ex_bad_label :: node where
  "ex_bad_label = ex_node ''n2'' [PStr ''Person'', PInt 3] []"

text \<open>A node whose first label is a list, and a node with a list among its properties.\<close>

definition ex_list_label :: node where
  "ex_list_label = ex_node ''n3'' [PList [PStr ''Person'']] []"

definition ex_list_value :: node where
  "ex_list_value = ex_node ''n4'' [PStr ''Tag''] [(''tags'', PList [PStr ''<b>'', PInt 1])]"

text \<open>The elements that the mapping gives for the document and its chunk.\<close>

definition ex_mapped :: elements where
  "ex_mapped =
     \<lparr>el_nodes =
        [\<lparr>node_data =
            \<lparr>cy_id = ''d1'', cy_label = ''Document'', cy_labels = [PStr ''Document''],
             cy_color = ''#3b82f6'', cy_size = 20,
             cy_tooltip = ''<strong>Document</strong><br>Type: Document'',
             cy_properties = [], cy_expanded = False\<rparr>,
          node_classes = []\<rparr>,
         \<lparr>node_data =
            \<lparr>cy_id = ''c1'', cy_label = ''Chunk'', cy_labels = [PStr ''Chunk''],
             cy_color = ''#8b5cf6'', cy_size = 20,
             cy_tooltip = ''<strong>Chunk</strong><br>Type: Chunk'',
             cy_properties = [], cy_expanded = False\<rparr>,
          node_classes = []\<rparr>],
      el_edges =
        [\<lparr>edge_data =
            \<lparr>ce_id = ''r1'', ce_source = ''d1'', ce_target = ''c1'', ce_label = ''HAS_CHUNK''\<rparr>\<rparr>]\<rparr>"

text \<open>A schema of 150 nodes named by their index, with one relationship inside the first
  hundred and one that leaves them.\<close>

definition ex_schema_nodes :: "node list" where
  "ex_schema_nodes = map (\<lambda>i. ex_node (str_nat i) [PStr ''Table''] []) [0..<150]"

definition ex_schema_rels :: "relationship list" where
  "ex_schema_rels = [ex_rel ''r1'' ''3'' ''7'' ''REFERS'', ex_rel ''r2'' ''3'' ''120'' ''REFERS'']"

section \<open>Properties of the visibility computation\<close>

lemmas example_defs = ex_node_def ex_rel_def ex_d1_def ex_c1_def ex_e2_def ex_e3_def
  ex_nodes_def ex_rels_def

lemmas visibility_defs = document_ids_def other_endpoints_def is_document_def start_of_def
  end_of_def dict_get_def node_ids_of_def

lemma add_document_step:
  "add_document n (V, D) =
     (if is_document n then (insert (element_id n) V, insert (element_id n) D) else (V, D))"
  by (cases "dict_get (labels n) []") (simp_all add: add_document_def is_document_def Let_def)

lemma document_ids_Cons:
  "document_ids (n # ns) =
     (if is_document n then insert (element_id n) (document_ids ns) else document_ids ns)"
  by (simp add: document_ids_def)

lemma fold_add_document:
  "fold add_document ns (V, D) = (V \<union> document_ids ns, D \<union> document_ids ns)"
proof (induction ns arbitrary: V D)
  case Nil
  show ?case by (simp add: document_ids_def)
next
  case (Cons n ns)
  show ?case
    by (simp add: add_document_step Cons.IH document_ids_Cons)
qed

lemma add_neighbours_step:
  "add_neighbours A r V = V \<union> other_endpoints A [r]"
  by (auto simp: add_neighbours_def other_endpoints_def start_of_def end_of_def Let_def)

lemma other_endpoints_Cons:
  "other_endpoints A (r # rs) = other_endpoints A [r] \<union> other_endpoints A rs"
  by (auto simp: other_endpoints_def)

lemma fold_add_neighbours:
  "fold (add_neighbours A) rs V = V \<union> other_endpoints A rs"
proof (induction rs arbitrary: V)
  case Nil
  show ?case by (simp add: other_endpoints_def)
next
  case (Cons r rs)
  have "fold (add_neighbours A) (r # rs) V = add_neighbours A r V \<union> other_endpoints A rs"
    by (simp add: Cons.IH)
  also have "\<dots> = V \<union> other_endpoints A (r # rs)"
    unfolding add_neighbours_step other_endpoints_Cons[of A r rs] by (simp add: Un_assoc)
  finally show ?case .
qed

lemma other_endpoints_empty: "other_endpoints {} rs = {}"
  by (simp add: other_endpoints_def)

lemma visible_ids_eq:
  "visible_ids ns rs E =
     document_ids ns \<union> other_endpoints (document_ids ns) rs \<union> other_endpoints (Some ` E) rs"
  by (simp add: visible_ids_def fold_add_document fold_add_neighbours other_endpoints_empty Let_def)

lemma other_endpoints_mono: "A \<subseteq> B \<Longrightarrow> other_endpoints A rs \<subseteq> other_endpoints B rs"
  by (auto simp: other_endpoints_def)

lemma visible_ids_mono: "E \<subseteq> E' \<Longrightarrow> visible_ids ns rs E \<subseteq> visible_ids ns rs E'"
  unfolding visible_ids_eq using other_endpoints_mono[of "Some ` E" "Some ` E'" rs] by blast

lemma filter_subseq_mono:
  assumes "\<And>x. x \<in> set xs \<Longrightarrow> P x \<Longrightarrow> Q x"
  shows "subseq (filter P xs) (filter Q xs)"
proof -
  have "filter P xs = filter P (filter Q xs)"
    using assms by (induction xs) auto
  then show ?thesis
    by (metis subseq_filter_left)
qed

text \<open>
  Claim C4 (schema identity): with view mode \<^verbatim>\<open>'schema'\<close>, \<open>get_visible_nodes\<close>
  returns the node list and the relationship list it was given, whatever the expansion set.
\<close>

theorem schema_identity:
  "get_visible_nodes all_nodes all_relationships expanded_node_ids ''schema''
     = (all_nodes, all_relationships)"
  by (simp add: get_visible_nodes_def)

text \<open>
  Claim C3 (data view): outside the schema mode, \<open>get_visible_nodes\<close> returns exactly
  the input nodes, in input order, whose \<open>element_id\<close> is (a) the id of a document node,
  or (b) the other endpoint of a relationship with an endpoint among the document ids, or
  (c) the other endpoint of a relationship with an endpoint in the expansion set. Part (c)
  reads the expansion set only: the ids visible for an expansion set are those visible
  for the empty one together with the direct neighbours of the expanded ids, so a node
  reached through an expansion reveals nothing unless its own id is expanded.
\<close>

theorem data_view_exact:
  assumes "view_type \<noteq> ''schema''"
  shows "fst (get_visible_nodes ns rs E view_type) =
           filter (\<lambda>nd. element_id nd \<in> document_ids ns
                          \<or> element_id nd \<in> other_endpoints (document_ids ns) rs
                          \<or> element_id nd \<in> other_endpoints (Some ` E) rs) ns
       \<and> visible_ids ns rs E = visible_ids ns rs {} \<union> other_endpoints (Some ` E) rs"
  using assms by (auto simp: get_visible_nodes_def visible_ids_eq other_endpoints_empty)

theorem data_view_exact_witness:
  "''data'' \<noteq> ''schema''
   \<and> fst (get_visible_nodes ex_nodes ex_rels {} ''data'') = [ex_d1, ex_c1]
   \<and> fst (get_visible_nodes ex_nodes ex_rels {''c1''} ''data'') = [ex_d1, ex_c1, ex_e2]
   \<and> fst (get_visible_nodes ex_nodes ex_rels {''c1'', ''e2''} ''data'')
        = [ex_d1, ex_c1, ex_e2, ex_e3]"
  using data_view_exact [of "''data''" ex_nodes ex_rels "{}"]
        data_view_exact [of "''data''" ex_nodes ex_rels "{''c1''}"]
        data_view_exact [of "''data''" ex_nodes ex_rels "{''c1'', ''e2''}"]
  by (simp add: example_defs visibility_defs)

text \<open>
  Claim C10 (monotonicity): outside the schema mode and for fixed node and relationship
  lists, enlarging the expansion set only adds to the result: the nodes and the
  relationships returned for \<open>E\<close> are returned for every \<open>E'\<close> that contains \<open>E\<close>, in the
  same order.
\<close>

theorem expansion_monotone:
  assumes "view_type \<noteq> ''schema''" and "E \<subseteq> E'"
  shows "subseq (fst (get_visible_nodes ns rs E view_type))
                (fst (get_visible_nodes ns rs E' view_type))
       \<and> subseq (snd (get_visible_nodes ns rs E view_type))
                (snd (get_visible_nodes ns rs E' view_type))
       \<and> set (fst (get_visible_nodes ns rs E view_type))
           \<subseteq> set (fst (get_visible_nodes ns rs E' view_type))
       \<and> set (snd (get_visible_nodes ns rs E view_type))
           \<subseteq> set (snd (get_visible_nodes ns rs E' view_type))"
proof -
  have m: "visible_ids ns rs E \<subseteq> visible_ids ns rs E'"
    using assms(2) by (rule visible_ids_mono)
  have a: "subseq (fst (get_visible_nodes ns rs E view_type))
                  (fst (get_visible_nodes ns rs E' view_type))"
    using assms(1) m by (auto simp: get_visible_nodes_def Let_def intro!: filter_subseq_mono)
  have b: "subseq (snd (get_visible_nodes ns rs E view_type))
                  (snd (get_visible_nodes ns rs E' view_type))"
    using assms(1) m by (auto simp: get_visible_nodes_def Let_def intro!: filter_subseq_mono)
  have c: "set (fst (get_visible_nodes ns rs E view_type))
             \<subseteq> set (fst (get_visible_nodes ns rs E' view_type))"
    using assms(1) m by (auto simp: get_visible_nodes_def Let_def)
  have d: "set (snd (get_visible_nodes ns rs E view_type))
             \<subseteq> set (snd (get_visible_nodes ns rs E' view_type))"
    using assms(1) m by (auto simp: get_visible_nodes_def Let_def)
  from a b c d show ?thesis by blast
qed

theorem expansion_monotone_witness:
  "''data'' \<noteq> ''schema'' \<and> ({}::string set) \<subseteq> {''c1''}
   \<and> subseq (fst (get_visible_nodes ex_nodes ex_rels {} ''data''))
             (fst (get_visible_nodes ex_nodes ex_rels {''c1''} ''data''))
   \<and> subseq (snd (get_visible_nodes ex_nodes ex_rels {} ''data''))
             (snd (get_visible_nodes ex_nodes ex_rels {''c1''} ''data''))
   \<and> set (fst (get_visible_nodes ex_nodes ex_rels {} ''data''))
        \<subseteq> set (fst (get_visible_nodes ex_nodes ex_rels {''c1''} ''data''))
   \<and> set (snd (get_visible_nodes ex_nodes ex_rels {} ''data''))
        \<subseteq> set (snd (get_visible_nodes ex_nodes ex_rels {''c1''} ''data''))"
  using expansion_monotone [of "''data''" "{}" "{''c1''}" ex_nodes ex_rels] by simp

section \<open>Properties of the element mapping\<close>

subsection \<open>Escaping\<close>

lemma py_replace_single:
  "py_replace [a] new s = concat (map (\<lambda>c. if c = a then new else [c]) s)"
  by (induction s) simp_all

lemma html_escape_chars: "html_escape s = concat (map html_escape_char s)"
proof (induction s)
  case Nil
  show ?case by (simp add: html_escape_def)
next
  case (Cons c s)
  then show ?case
    by (simp add: html_escape_def py_replace_single html_escape_char_def dquote_def)
qed

lemma html_escape_no_markup: "set (html_escape s) \<inter> markup_chars = {}"
  by (induction s) (auto simp: html_escape_chars html_escape_char_def dquote_def markup_chars_def)

lemma escaped_string_no_markup: "set (escaped_text (PStr s)) \<inter> markup_chars = {}"
  by (simp add: escaped_text_def html_escape_no_markup)

subsection \<open>The join and the loop over the nodes\<close>

lemma check_strs_ok: "list_all is_str vs \<Longrightarrow> check_strs i vs = Inr (map py_str vs)"
proof (induction vs arbitrary: i)
  case Nil
  show ?case by simp
next
  case (Cons v vs)
  then show ?case by (cases v) simp_all
qed

lemma check_strs_bad: "\<not> list_all is_str vs \<Longrightarrow> \<exists>e. check_strs i vs = Inl e"
proof (induction vs arbitrary: i)
  case Nil
  then show ?case by simp
next
  case (Cons v vs)
  show ?case
  proof (cases v)
    case (PStr s)
    with Cons.prems have "\<not> list_all is_str vs" by simp
    then obtain e where "check_strs (Suc i) vs = Inl e"
      using Cons.IH by blast
    with PStr show ?thesis by simp
  qed simp_all
qed

lemma py_join_Inr:
  "py_join sep vs = Inr s \<longleftrightarrow> list_all is_str vs \<and> s = join_strs sep (map py_str vs)"
proof (cases "list_all is_str vs")
  case True
  then show ?thesis by (auto simp: py_join_def check_strs_ok)
next
  case False
  then obtain e where "check_strs 0 vs = Inl e"
    using check_strs_bad by blast
  with False show ?thesis by (simp add: py_join_def)
qed

lemma py_join_Inl: "\<not> list_all is_str vs \<Longrightarrow> \<exists>e. py_join sep vs = Inl e"
  using check_strs_bad[of vs 0] by (auto simp: py_join_def)

lemma node_color_ok:
  "list_all is_str lbls \<Longrightarrow> node_color cs lbls = Inr (label_color cs lbls)"
proof (cases lbls)
  case Nil
  then show ?thesis by (simp add: node_color_def label_color_def)
next
  case (Cons l ls)
  assume "list_all is_str lbls"
  with Cons show ?thesis by (cases l) (simp_all add: node_color_def label_color_def)
qed

lemma convert_node_Inr:
  "convert_node cs ex nd = Inr cy \<longleftrightarrow>
     labels_are_strings nd \<and>
     cy = \<lparr>node_data =
             \<lparr>cy_id = node_id nd,
              cy_label = take 30 (py_str (node_caption (node_labels nd) (node_props nd))),
              cy_labels = node_labels nd,
              cy_color = label_color cs (node_labels nd),
              cy_size = (if node_id nd \<in> ex then 25 else 20),
              cy_tooltip = join_strs ''<br>''
                 ([''<strong>'' @ escaped_text (node_caption (node_labels nd) (node_props nd))
                     @ ''</strong>'',
                   ''Type: '' @ join_strs '', '' (map py_str (node_labels nd))]
                  @ (if node_id nd \<in> ex then [''<em>Expanded</em>''] else [])
                  @ property_lines (node_props nd)),
              cy_properties = node_props nd,
              cy_expanded = (node_id nd \<in> ex)\<rparr>,
           node_classes = (if node_id nd \<in> ex then ''expanded'' else [])\<rparr>"
proof (cases "labels_are_strings nd")
  case True
  then have "py_join '', '' (dict_get (labels nd) [])
      = Inr (join_strs '', '' (map py_str (dict_get (labels nd) [])))"
    by (simp add: py_join_Inr labels_are_strings_def node_labels_def)
  moreover from True have "node_color cs (dict_get (labels nd) [])
      = Inr (label_color cs (dict_get (labels nd) []))"
    by (simp add: node_color_ok labels_are_strings_def node_labels_def)
  ultimately show ?thesis
    using True
    unfolding convert_node_def Let_def node_id_def node_labels_def node_props_def
      escaped_text_def
    by auto
next
  case False
  then obtain e where j: "py_join '', '' (dict_get (labels nd) []) = Inl e"
    using py_join_Inl[of "dict_get (labels nd) []"]
    by (auto simp: labels_are_strings_def node_labels_def)
  show ?thesis
  proof (cases "node_color cs (dict_get (labels nd) [])")
    case (Inl e')
    with False show ?thesis by (simp add: convert_node_def Let_def)
  next
    case (Inr c)
    with False j show ?thesis by (simp add: convert_node_def Let_def)
  qed
qed

lemma convert_nodes_Inr:
  "convert_nodes cs ex nds = Inr cys \<longleftrightarrow> map (convert_node cs ex) nds = map Inr cys"
proof (induction nds arbitrary: cys)
  case Nil
  show ?case by auto
next
  case (Cons nd nds)
  show ?case
  proof (cases "convert_node cs ex nd")
    case (Inl e)
    then show ?thesis by (cases cys) auto
  next
    case hd: (Inr cy)
    show ?thesis
    proof (cases "convert_nodes cs ex nds")
      case (Inl e)
      have "map (convert_node cs ex) nds \<noteq> map Inr cys'" for cys'
        using Cons.IH[of cys'] Inl by simp
      with hd Inl show ?thesis by (cases cys) auto
    next
      case (Inr cys')
      then have "map (convert_node cs ex) nds = map Inr cys'"
        using Cons.IH by simp
      with hd Inr show ?thesis by (cases cys) (auto simp: inj_map_eq_map[OF inj_Inr])
    qed
  qed
qed

lemma convert_nodes_ok:
  "list_all labels_are_strings nds \<Longrightarrow> \<exists>cys. convert_nodes cs ex nds = Inr cys"
proof (induction nds)
  case Nil
  show ?case by simp
next
  case (Cons nd nds)
  then obtain cys where "convert_nodes cs ex nds = Inr cys" by auto
  moreover from Cons.prems obtain cy where "convert_node cs ex nd = Inr cy"
    by (auto simp: convert_node_Inr)
  ultimately show ?case by simp
qed

lemma convert_nodes_fields:
  assumes "convert_nodes cs ex nds = Inr cys"
    and "\<And>nd cy. convert_node cs ex nd = Inr cy \<Longrightarrow> f cy = g nd"
  shows "map f cys = map g nds"
proof -
  from assms(1) have m: "map (convert_node cs ex) nds = map Inr cys"
    by (simp add: convert_nodes_Inr)
  then have len: "length nds = length cys"
    by (metis length_map)
  show ?thesis
  proof (rule nth_equalityI)
    show "length (map f cys) = length (map g nds)" using len by simp
  next
    fix i assume "i < length (map f cys)"
    then have i: "i < length cys" "i < length nds" using len by simp_all
    from m have "map (convert_node cs ex) nds ! i = map Inr cys ! i" by simp
    with i have "convert_node cs ex (nds ! i) = Inr (cys ! i)" by simp
    then have "f (cys ! i) = g (nds ! i)" by (rule assms(2))
    with i show "map f cys ! i = map g nds ! i" by simp
  qed
qed

lemma convert_nodes_labels:
  "convert_nodes cs ex nds = Inr cys \<Longrightarrow> list_all labels_are_strings nds"
proof (induction nds arbitrary: cys)
  case Nil
  show ?case by simp
next
  case (Cons nd nds)
  then show ?case
    by (auto simp: convert_node_Inr split: sum.splits)
qed

lemma node_caption_spec: "node_caption (node_labels nd) (node_props nd) = caption_spec nd"
  by (cases "node_labels nd") (simp_all add: node_caption_def caption_spec_def py_or_def)

lemma convert_Inr:
  "convert_to_cytoscape_format nodes rels ex cs = Inr els \<longleftrightarrow>
     (\<exists>cys. convert_nodes cs ex nodes = Inr cys
        \<and> els = \<lparr>el_nodes = cys,
                  el_edges = concat (map (convert_edge (node_ids_of nodes)) rels)\<rparr>)"
  by (cases "convert_nodes cs ex nodes")
     (auto simp: convert_to_cytoscape_format_def node_ids_of_def)

lemma convert_ok:
  assumes "list_all labels_are_strings nodes"
  shows "\<exists>els. convert_to_cytoscape_format nodes rels ex cs = Inr els"
  using convert_nodes_ok[OF assms, of cs ex] by (auto simp: convert_Inr)

lemma convert_fields:
  assumes "convert_to_cytoscape_format nodes rels ex cs = Inr els"
    and "\<And>nd cy. convert_node cs ex nd = Inr cy \<Longrightarrow> f cy = g nd"
  shows "map f (el_nodes els) = map g nodes"
  using assms(1) convert_nodes_fields[of cs ex nodes "el_nodes els" f g, OF _ assms(2)]
  by (auto simp: convert_Inr)

subsection \<open>Edges\<close>

lemma convert_edge_endpoints:
  assumes "e \<in> set (concat (map (convert_edge ids) rels))"
  shows "Some (ce_source (edge_data e)) \<in> ids \<and> Some (ce_target (edge_data e)) \<in> ids
       \<and> ce_source (edge_data e) \<noteq> [] \<and> ce_target (edge_data e) \<noteq> []"
  using assms by (auto simp: convert_edge_def Let_def split: if_splits)

lemma node_id_in_ids: "Some s \<in> node_ids_of nodes \<Longrightarrow> s \<in> set (map node_id nodes)"
proof -
  assume "Some s \<in> node_ids_of nodes"
  then obtain nd where "nd \<in> set nodes" "element_id nd = Some s"
    by (auto simp: node_ids_of_def)
  then have "node_id nd = s" "nd \<in> set nodes"
    by (simp_all add: node_id_def dict_get_def)
  then show ?thesis by force
qed

lemma convert_ids:
  assumes "convert_to_cytoscape_format nodes rels ex cs = Inr els"
  shows "map (\<lambda>cy. cy_id (node_data cy)) (el_nodes els) = map node_id nodes"
  using assms by (rule convert_fields) (simp add: convert_node_Inr)

lemma convert_edges_closed:
  assumes "convert_to_cytoscape_format nodes rels ex cs = Inr els"
  shows "list_all (\<lambda>e. ce_source (edge_data e) \<in> set (map (\<lambda>cy. cy_id (node_data cy)) (el_nodes els))
                     \<and> ce_target (edge_data e) \<in> set (map (\<lambda>cy. cy_id (node_data cy)) (el_nodes els))
                     \<and> Some (ce_source (edge_data e)) \<in> node_ids_of nodes
                     \<and> Some (ce_target (edge_data e)) \<in> node_ids_of nodes)
           (el_edges els)"
proof -
  have ids: "map (\<lambda>cy. cy_id (node_data cy)) (el_nodes els) = map node_id nodes"
    using assms by (rule convert_ids)
  have edges: "el_edges els = concat (map (convert_edge (node_ids_of nodes)) rels)"
    using assms by (auto simp: convert_Inr)
  show ?thesis
    unfolding list_all_iff ids edges
    using convert_edge_endpoints[of _ "node_ids_of nodes" rels] node_id_in_ids[of _ nodes]
    by blast
qed

subsection \<open>The examples, evaluated\<close>

lemmas mapping_eval = convert_to_cytoscape_format_def convert_node_def convert_edge_def
  dict_get_def py_join_def node_caption_def node_color_def props_get_def py_or_def
  property_lines_def table_get_def COLOR_SCHEME_def html_escape_chars html_escape_char_def
  dquote_def str_nat.simps str_int_def digit_char_def

lemma ex_mapped_eq: "convert_to_cytoscape_format [ex_d1, ex_c1] ex_rels {} COLOR_SCHEME = Inr ex_mapped"
  by (simp add: mapping_eval example_defs ex_mapped_def)

subsection \<open>Caption, tooltip and referential closure\<close>

text \<open>
  Claim C8 (caption): when the mapping succeeds, which it does exactly when every label is
  a string, the \<open>label\<close> field of each emitted node is the first 30 characters of the
  text of its caption, and the caption is resolved in the order of the specification:
  \<^verbatim>\<open>properties.id\<close>, \<^verbatim>\<open>properties.name\<close>, \<^verbatim>\<open>properties.fileName\<close>, the first
  label, the literal \<^verbatim>\<open>"Node"\<close>. A property that is absent or falsy is passed over.
\<close>

theorem caption_resolution:
  assumes "list_all labels_are_strings nodes"
  shows "\<exists>els. convert_to_cytoscape_format nodes rels ex cs = Inr els
           \<and> map (\<lambda>cy. cy_label (node_data cy)) (el_nodes els)
               = map (\<lambda>nd. take 30 (py_str (caption_spec nd))) nodes"
proof -
  from assms obtain els where els: "convert_to_cytoscape_format nodes rels ex cs = Inr els"
    using convert_ok by blast
  have "map (\<lambda>cy. cy_label (node_data cy)) (el_nodes els)
          = map (\<lambda>nd. take 30 (py_str (caption_spec nd))) nodes"
    using els by (rule convert_fields) (simp add: convert_node_Inr node_caption_spec)
  with els show ?thesis by blast
qed

theorem caption_resolution_witness:
  "list_all labels_are_strings ex_captions
   \<and> (\<exists>els. convert_to_cytoscape_format ex_captions [] {} COLOR_SCHEME = Inr els
          \<and> map (\<lambda>cy. cy_label (node_data cy)) (el_nodes els)
              = [''7'', ''Alice'', ''a.pdf'', ''Person'', ''Node'', ''012345678901234567890123456789''])"
proof -
  have h: "list_all labels_are_strings ex_captions"
    by (simp add: ex_captions_def ex_node_def labels_are_strings_def node_labels_def dict_get_def)
  have "map (\<lambda>nd. take 30 (py_str (caption_spec nd))) ex_captions
      = [''7'', ''Alice'', ''a.pdf'', ''Person'', ''Node'', ''012345678901234567890123456789'']"
    by (simp add: ex_captions_def ex_node_def caption_spec_def node_labels_def node_props_def
        dict_get_def props_get_def str_int_def str_nat.simps digit_char_def)
  with h caption_resolution[OF h, of "[]" "{}" COLOR_SCHEME] show ?thesis by simp
qed

lemma property_lines_eq:
  "property_lines props =
     map (\<lambda>kv. fst kv @ '': '' @ take 100 (escaped_text (snd kv)))
       (filter (\<lambda>kv. fst kv \<notin> {''embedding'', ''text'', ''summary''} \<and> truthy (snd kv)) props)"
  by (simp add: property_lines_def escaped_text_def)

text \<open>
  Claim C2 (escaping), as amended: when the mapping succeeds, the tooltip of each emitted
  node is the \<^verbatim>\<open><br>\<close>-joined list of the caption in \<^verbatim>\<open><strong>\<close>, the line of
  the labels, the marker of an expanded node, and one line \<^verbatim>\<open>key: value\<close> for every
  property whose key is not reserved and whose value is truthy. The caption and the
  property values enter it only as \<^verbatim>\<open>str(_escape_property_value(value))\<close>, the values
  cut to 100 characters. For a value that is a string, that text is \<^verbatim>\<open>html.escape\<close>
  of the value, character by character: it contains no \<^verbatim>\<open><\<close>, \<^verbatim>\<open>>\<close> or quote, and
  the value \<^verbatim>\<open><b>x</b>\<close> enters as \<^verbatim>\<open>&lt;b&gt;x&lt;/b&gt;\<close>. A value that is not a
  string enters as \<^verbatim>\<open>str(value)\<close>, which nothing escapes: what that text contains
  is no part of the amended claim, and neither are the label list and the property keys.
  The \<open>label\<close> field is the text of the caption cut to 30 characters, and the
  \<open>properties\<close> field is the property dictionary of the node: neither is escaped.
\<close>

theorem tooltip_escaping:
  assumes "list_all labels_are_strings nodes"
  shows "\<exists>els. convert_to_cytoscape_format nodes rels ex cs = Inr els
           \<and> map (\<lambda>cy. cy_tooltip (node_data cy)) (el_nodes els)
               = map (\<lambda>nd. join_strs ''<br>''
                      ([''<strong>'' @ escaped_text (caption_spec nd) @ ''</strong>'',
                        ''Type: '' @ join_strs '', '' (map py_str (node_labels nd))]
                       @ (if node_id nd \<in> ex then [''<em>Expanded</em>''] else [])
                       @ map (\<lambda>kv. fst kv @ '': '' @ take 100 (escaped_text (snd kv)))
                           (filter (\<lambda>kv. fst kv \<notin> {''embedding'', ''text'', ''summary''}
                                        \<and> truthy (snd kv)) (node_props nd)))) nodes
           \<and> map (\<lambda>cy. cy_label (node_data cy)) (el_nodes els)
               = map (\<lambda>nd. take 30 (py_str (caption_spec nd))) nodes
           \<and> map (\<lambda>cy. cy_properties (node_data cy)) (el_nodes els) = map node_props nodes
           \<and> (\<forall>s. set (escaped_text (PStr s)) \<inter> markup_chars = {})
           \<and> (\<forall>s. escaped_text (PStr s) = concat (map html_escape_char s))
           \<and> escaped_text (PStr ''<b>x</b>'') = ''&lt;b&gt;x&lt;/b&gt;''"
proof -
  from assms obtain els where els: "convert_to_cytoscape_format nodes rels ex cs = Inr els"
    using convert_ok by blast
  have t: "map (\<lambda>cy. cy_tooltip (node_data cy)) (el_nodes els)
               = map (\<lambda>nd. join_strs ''<br>''
                      ([''<strong>'' @ escaped_text (caption_spec nd) @ ''</strong>'',
                        ''Type: '' @ join_strs '', '' (map py_str (node_labels nd))]
                       @ (if node_id nd \<in> ex then [''<em>Expanded</em>''] else [])
                       @ map (\<lambda>kv. fst kv @ '': '' @ take 100 (escaped_text (snd kv)))
                           (filter (\<lambda>kv. fst kv \<notin> {''embedding'', ''text'', ''summary''}
                                        \<and> truthy (snd kv)) (node_props nd)))) nodes"
    using els
    by (rule convert_fields) (simp add: convert_node_Inr node_caption_spec property_lines_eq)
  have e: "\<forall>s. escaped_text (PStr s) = concat (map html_escape_char s)"
    by (simp add: escaped_text_def html_escape_chars)
  have x: "escaped_text (PStr ''<b>x</b>'') = ''&lt;b&gt;x&lt;/b&gt;''"
    by (simp add: e html_escape_char_def dquote_def)
  have l: "map (\<lambda>cy. cy_label (node_data cy)) (el_nodes els)
               = map (\<lambda>nd. take 30 (py_str (caption_spec nd))) nodes"
    using els by (rule convert_fields) (simp add: convert_node_Inr node_caption_spec)
  have p: "map (\<lambda>cy. cy_properties (node_data cy)) (el_nodes els) = map node_props nodes"
    using els by (rule convert_fields) (simp add: convert_node_Inr)
  from els t l p e x escaped_string_no_markup show ?thesis by blast
qed

theorem tooltip_escaping_witness:
  "list_all labels_are_strings [ex_markup]
   \<and> (\<exists>els. convert_to_cytoscape_format [ex_markup] [] {} COLOR_SCHEME = Inr els
          \<and> map (\<lambda>cy. cy_tooltip (node_data cy)) (el_nodes els)
              = [''<strong>'' @ ''&lt;b&gt;x&lt;/b&gt;'' @ ''</strong>'' @ ''<br>''
                 @ ''Type: <i>'' @ ''<br>'' @ ''name: '' @ ''&lt;b&gt;x&lt;/b&gt;''
                 @ ''<br>'' @ ''<u>: v'']
          \<and> map (\<lambda>cy. cy_label (node_data cy)) (el_nodes els) = [''<b>x</b>'']
          \<and> map (\<lambda>cy. cy_properties (node_data cy)) (el_nodes els)
              = [[(''name'', PStr ''<b>x</b>''), (''<u>'', PStr ''v'')]])
   \<and> set (escaped_text (PStr ''<b>x</b>'')) \<inter> markup_chars = {}"
proof -
  have h: "list_all labels_are_strings [ex_markup]"
    by (simp add: ex_markup_def ex_node_def labels_are_strings_def node_labels_def dict_get_def)
  have c: "caption_spec ex_markup = PStr ''<b>x</b>''"
    by (simp add: ex_markup_def ex_node_def caption_spec_def node_props_def dict_get_def props_get_def)
  have p: "node_props ex_markup = [(''name'', PStr ''<b>x</b>''), (''<u>'', PStr ''v'')]"
    "node_labels ex_markup = [PStr ''<i>'']"
    by (simp_all add: ex_markup_def ex_node_def node_props_def node_labels_def dict_get_def)
  have v: "escaped_text (PStr ''v'') = ''v''"
    by (simp add: escaped_text_def html_escape_chars html_escape_char_def dquote_def)
  from tooltip_escaping[OF h, of "[]" "{}" COLOR_SCHEME] show ?thesis
    using h by (auto simp: c p v)
qed

text \<open>
  Claim C2 as stated fails: for a node named \<^verbatim>\<open><b>x</b>\<close> the caption field
  \<open>label\<close> and the \<open>properties\<close> field of the emitted element hold the raw text, and
  the label list and the property keys enter the tooltip as they are. So does a property
  value that is a list: the string \<^verbatim>\<open><b>\<close> inside it reaches the tooltip as raw
  markup, between quotes.
\<close>

theorem escaping_counterexample:
  "convert_to_cytoscape_format [ex_markup] [] {} COLOR_SCHEME
     = Inr \<lparr>el_nodes =
              [\<lparr>node_data =
                  \<lparr>cy_id = ''n1'',
                   cy_label = ''<b>x</b>'',
                   cy_labels = [PStr ''<i>''],
                   cy_color = ''#94a3b8'',
                   cy_size = 20,
                   cy_tooltip = ''<strong>&lt;b&gt;x&lt;/b&gt;</strong><br>Type: <i><br>name: &lt;b&gt;x&lt;/b&gt;<br><u>: v'',
                   cy_properties = [(''name'', PStr ''<b>x</b>''), (''<u>'', PStr ''v'')],
                   cy_expanded = False\<rparr>,
                node_classes = []\<rparr>],
            el_edges = []\<rparr>
   \<and> html_escape ''<b>x</b>'' = ''&lt;b&gt;x&lt;/b&gt;''
   \<and> convert_to_cytoscape_format [ex_list_value] [] {} COLOR_SCHEME
     = Inr \<lparr>el_nodes =
              [\<lparr>node_data =
                  \<lparr>cy_id = ''n4'',
                   cy_label = ''Tag'',
                   cy_labels = [PStr ''Tag''],
                   cy_color = ''#94a3b8'',
                   cy_size = 20,
                   cy_tooltip = ''<strong>Tag</strong><br>Type: Tag<br>tags: ['<b>', 1]'',
                   cy_properties = [(''tags'', PList [PStr ''<b>'', PInt 1])],
                   cy_expanded = False\<rparr>,
                node_classes = []\<rparr>],
            el_edges = []\<rparr>"
  by code_simp

lemma visible_closed:
  assumes "list_all (\<lambda>r. start_node_element_id r \<in> node_ids_of ns
                        \<and> end_node_element_id r \<in> node_ids_of ns) rs"
  shows "list_all (\<lambda>r. start_node_element_id r \<in> node_ids_of (fst (get_visible_nodes ns rs E vt))
                      \<and> end_node_element_id r \<in> node_ids_of (fst (get_visible_nodes ns rs E vt)))
           (snd (get_visible_nodes ns rs E vt))"
proof (cases "vt = ''schema''")
  case True
  with assms show ?thesis by (simp add: get_visible_nodes_def)
next
  case False
  have "node_ids_of (filter (\<lambda>nd. element_id nd \<in> V) ns) = node_ids_of ns \<inter> V" for V
    by (auto simp: node_ids_of_def)
  with False assms show ?thesis
    by (auto simp: get_visible_nodes_def list_all_iff Let_def)
qed

text \<open>
  Claim C1 (referential closure), as amended. If every input relationship has both
  endpoints among the ids of the input nodes, every relationship returned by
  \<open>get_visible_nodes\<close> has both endpoints among the ids of the returned nodes, in both
  view modes. For any input, outside the schema mode, the returned relationships have
  both endpoints in the set of visible ids. For any input, every edge emitted by the
  element mapping has its source and its target among the ids of the emitted nodes, which
  are ids of the nodes being mapped.
\<close>

theorem referential_closure:
  "(list_all (\<lambda>r. start_node_element_id r \<in> node_ids_of ns
                  \<and> end_node_element_id r \<in> node_ids_of ns) rs
      \<longrightarrow> list_all (\<lambda>r. start_node_element_id r \<in> node_ids_of (fst (get_visible_nodes ns rs E vt))
                      \<and> end_node_element_id r \<in> node_ids_of (fst (get_visible_nodes ns rs E vt)))
            (snd (get_visible_nodes ns rs E vt)))
   \<and> (vt \<noteq> ''schema''
      \<longrightarrow> list_all (\<lambda>r. start_node_element_id r \<in> visible_ids ns rs E
                      \<and> end_node_element_id r \<in> visible_ids ns rs E)
            (snd (get_visible_nodes ns rs E vt)))
   \<and> (convert_to_cytoscape_format ns rs ex cs = Inr els
      \<longrightarrow> list_all (\<lambda>e. ce_source (edge_data e) \<in> set (map (\<lambda>cy. cy_id (node_data cy)) (el_nodes els))
                     \<and> ce_target (edge_data e) \<in> set (map (\<lambda>cy. cy_id (node_data cy)) (el_nodes els))
                     \<and> Some (ce_source (edge_data e)) \<in> node_ids_of ns
                     \<and> Some (ce_target (edge_data e)) \<in> node_ids_of ns)
            (el_edges els))"
proof -
  have "vt \<noteq> ''schema''
      \<longrightarrow> list_all (\<lambda>r. start_node_element_id r \<in> visible_ids ns rs E
                      \<and> end_node_element_id r \<in> visible_ids ns rs E)
            (snd (get_visible_nodes ns rs E vt))"
    by (simp add: get_visible_nodes_def list_all_iff Let_def)
  then show ?thesis
    using visible_closed[of ns rs E vt] convert_edges_closed[of ns rs ex cs els]
    by blast
qed

theorem referential_closure_witness:
  "list_all (\<lambda>r. start_node_element_id r \<in> node_ids_of ex_nodes
                 \<and> end_node_element_id r \<in> node_ids_of ex_nodes) ex_rels
   \<and> list_all (\<lambda>r. start_node_element_id r
                       \<in> node_ids_of (fst (get_visible_nodes ex_nodes ex_rels {''c1''} ''data''))
                   \<and> end_node_element_id r
                       \<in> node_ids_of (fst (get_visible_nodes ex_nodes ex_rels {''c1''} ''data'')))
         (snd (get_visible_nodes ex_nodes ex_rels {''c1''} ''data''))
   \<and> snd (get_visible_nodes ex_nodes ex_rels {''c1''} ''data'')
        = [ex_rel ''r1'' ''d1'' ''c1'' ''HAS_CHUNK'', ex_rel ''r2'' ''c1'' ''e2'' ''MENTIONS'']
   \<and> ''data'' \<noteq> ''schema''
   \<and> convert_to_cytoscape_format [ex_d1, ex_c1] ex_rels {} COLOR_SCHEME = Inr ex_mapped
   \<and> list_all (\<lambda>e. ce_source (edge_data e) \<in> set (map (\<lambda>cy. cy_id (node_data cy)) (el_nodes ex_mapped))
                  \<and> ce_target (edge_data e) \<in> set (map (\<lambda>cy. cy_id (node_data cy)) (el_nodes ex_mapped))
                  \<and> Some (ce_source (edge_data e)) \<in> node_ids_of [ex_d1, ex_c1]
                  \<and> Some (ce_target (edge_data e)) \<in> node_ids_of [ex_d1, ex_c1])
         (el_edges ex_mapped)
   \<and> map (\<lambda>e. ce_id (edge_data e)) (el_edges ex_mapped) = [''r1'']"
proof -
  have h: "list_all (\<lambda>r. start_node_element_id r \<in> node_ids_of ex_nodes
                 \<and> end_node_element_id r \<in> node_ids_of ex_nodes) ex_rels"
    by (simp add: example_defs node_ids_of_def)
  have v: "snd (get_visible_nodes ex_nodes ex_rels {''c1''} ''data'')
        = [ex_rel ''r1'' ''d1'' ''c1'' ''HAS_CHUNK'', ex_rel ''r2'' ''c1'' ''e2'' ''MENTIONS'']"
    by (simp add: get_visible_nodes_def visible_ids_eq visibility_defs example_defs)
  have m: "map (\<lambda>e. ce_id (edge_data e)) (el_edges ex_mapped) = [''r1'']"
    by (simp add: ex_mapped_def)
  show ?thesis
    using referential_closure[of ex_nodes ex_rels "{''c1''}" "''data''" "{}" COLOR_SCHEME ex_mapped]
      referential_closure[of "[ex_d1, ex_c1]" ex_rels "{}" "''data''" "{}" COLOR_SCHEME ex_mapped]
      h v m ex_mapped_eq
    by simp
qed

text \<open>
  Claim C1 as stated fails for \<open>get_visible_nodes\<close>: a relationship from a document to
  an id that no input node has is returned in both view modes, and its end is not the id
  of a returned node.
\<close>

theorem referential_closure_counterexample:
  "snd (get_visible_nodes [ex_d1] [ex_dangling] {} ''data'') = [ex_dangling]
   \<and> end_node_element_id ex_dangling
        \<notin> node_ids_of (fst (get_visible_nodes [ex_d1] [ex_dangling] {} ''data''))
   \<and> snd (get_visible_nodes [ex_d1] [ex_dangling] {} ''schema'') = [ex_dangling]
   \<and> end_node_element_id ex_dangling
        \<notin> node_ids_of (fst (get_visible_nodes [ex_d1] [ex_dangling] {} ''schema''))"
  by (simp add: get_visible_nodes_def visible_ids_eq visibility_defs example_defs ex_dangling_def)

section \<open>Properties of the rendering\<close>

lemma table_has_layout: "table_has LAYOUT_CONFIGS l \<longleftrightarrow> l \<in> preset_names"
  by (simp add: table_has_def LAYOUT_CONFIGS_def preset_names_def)

lemma render_empty:
  "render_cytoscape_graph [] rels layout exo vt h = ([], Empty_html empty_state_message)"
  by (simp add: render_cytoscape_graph_def build_empty_graph_template_def empty_state_message_def
      html_escape_chars html_escape_char_def dquote_def)

lemma render_nonempty:
  assumes "nodes \<noteq> []"
  shows "render_cytoscape_graph nodes rels layout exo vt h =
    (case convert_to_cytoscape_format (cap_nodes vt nodes) (cap_relationships vt nodes rels)
             (expanded_or_empty exo) COLOR_SCHEME of
       Inl e \<Rightarrow> (render_log vt nodes layout @ [render_error_log e],
                 Error_html (html_escape (exn_str e)))
     | Inr els \<Rightarrow> (render_log vt nodes layout,
                  build_html_template els (resolved_layout vt nodes layout) vt h))"
proof -
  have d: "''dagre'' \<in> preset_names" by (simp add: preset_names_def)
  show ?thesis
  using assms d
  unfolding render_cytoscape_graph_def Let_def table_has_layout cap_nodes_def
    cap_relationships_def resolved_layout_def render_log_def render_error_log_def
    expanded_or_empty_def cap_warning_def unknown_layout_warning_def dense_info_def
    build_error_template_def node_ids_of_def
  by (simp split: sum.splits)
qed

lemma cola_config: "table_get LAYOUT_CONFIGS ''cola'' d = table_get LAYOUT_CONFIGS ''cola'' JNull"
  by (simp add: table_get_def LAYOUT_CONFIGS_def)

lemma graph_layout_cola: "graph_layout (build_html_template els ''cola'' vt h) = cola_layout_json"
  unfolding build_html_template_def Let_def cola_layout_json_def
  by (simp add: cola_config[of "table_get LAYOUT_CONFIGS ''cola'' JNull"])

lemma resolved_unknown: "layout \<notin> preset_names \<Longrightarrow> resolved_layout vt nodes layout = ''cola''"
  by (simp add: resolved_layout_def)

lemma convert_length:
  assumes "convert_to_cytoscape_format nodes rels ex cs = Inr els"
  shows "length (el_nodes els) = length nodes"
  using convert_ids[OF assms] by (metis length_map)

lemma script_safe_Nil: "script_safe [] = []"
  by (simp add: script_safe_def)

lemma script_safe_Cons:
  "script_safe (c # cs) =
     (if c = CHR ''<'' \<and> cs \<noteq> [] \<and> hd cs = CHR ''/''
      then [CHR ''<'', bslash, CHR ''/''] @ script_safe (tl cs)
      else c # script_safe cs)"
  by (cases cs) (auto simp: script_safe_def)

lemma script_safe_hd: "s \<noteq> [] \<Longrightarrow> script_safe s \<noteq> [] \<and> hd (script_safe s) = hd s"
  by (cases s) (simp_all add: script_safe_Cons)

lemma script_safe_closed: "\<not> sublist ''</'' (script_safe s)"
proof (induction s rule: length_induct)
  case (1 s)
  show ?case
  proof (cases s)
    case Nil
    then show ?thesis by (simp add: script_safe_Nil)
  next
    case (Cons c cs)
    show ?thesis
    proof (cases "c = CHR ''<'' \<and> cs \<noteq> [] \<and> hd cs = CHR ''/''")
      case True
      have "length (tl cs) < length s" using Cons True by (cases cs) simp_all
      then have "\<not> sublist ''</'' (script_safe (tl cs))" using 1 by blast
      with True Cons show ?thesis
        by (simp add: script_safe_Cons sublist_Cons_right bslash_def)
    next
      case False
      have "\<not> sublist ''</'' (script_safe cs)" using 1 Cons by simp
      moreover have "\<not> prefix ''</'' (c # script_safe cs)"
      proof
        assume p: "prefix ''</'' (c # script_safe cs)"
        then have c: "c = CHR ''<''" and q: "prefix ''/'' (script_safe cs)" by simp_all
        from q have "script_safe cs \<noteq> []" by auto
        then have "cs \<noteq> []" by (auto simp: script_safe_Nil)
        with q script_safe_hd[of cs] have "hd cs = CHR ''/''"
          by (cases "script_safe cs") auto
        with c \<open>cs \<noteq> []\<close> False show False by simp
      qed
      moreover have "script_safe s = c # script_safe cs"
        using False Cons by (simp only: script_safe_Cons if_False)
      ultimately show ?thesis
        by (simp add: sublist_Cons_right)
    qed
  qed
qed

lemma check_strs_find:
  "check_strs i vs =
     (case find (\<lambda>iv. \<not> is_str (snd iv)) (enumerate i vs) of
        None \<Rightarrow> Inr (map py_str vs)
      | Some iv \<Rightarrow>
          Inl (TypeError (''sequence item '' @ str_nat (fst iv) @ '': expected str instance, ''
                          @ type_name (snd iv) @ '' found'')))"
proof (induction vs arbitrary: i)
  case Nil
  show ?case by simp
next
  case (Cons v vs)
  show ?case
    by (cases v) (simp_all add: Cons.IH split: option.splits)
qed

lemma find_enumerate_None:
  "find (\<lambda>iv. \<not> is_str (snd iv)) (enumerate i vs) = None \<longleftrightarrow> list_all is_str vs"
  by (induction vs arbitrary: i) simp_all

lemma label_error_join:
  assumes "\<And>xs. l \<noteq> PList xs"
  shows "label_error (l # ls) =
     (case find (\<lambda>iv. \<not> is_str (snd iv)) (enumerate 0 (l # ls)) of
        None \<Rightarrow> None
      | Some iv \<Rightarrow>
          Some (''sequence item '' @ str_nat (fst iv) @ '': expected str instance, ''
                @ type_name (snd iv) @ '' found''))"
proof (cases l)
  case (PList xs)
  with assms show ?thesis by blast
qed (simp_all add: label_error_def)

lemma label_error_None: "label_error lbls = None \<longleftrightarrow> list_all is_str lbls"
proof (cases lbls)
  case Nil
  then show ?thesis by (simp add: label_error_def)
next
  case (Cons l ls)
  show ?thesis
  proof (cases "\<exists>xs. l = PList xs")
    case True
    with Cons show ?thesis by (auto simp: label_error_def)
  next
    case False
    then have "label_error (l # ls) = None
        \<longleftrightarrow> find (\<lambda>iv. \<not> is_str (snd iv)) (enumerate 0 (l # ls)) = None"
      unfolding label_error_join[of l ls, OF False[simplified, rule_format]]
      by (cases "find (\<lambda>iv. \<not> is_str (snd iv)) (enumerate 0 (l # ls))") simp_all
    with Cons show ?thesis
      by (simp only: find_enumerate_None)
  qed
qed

lemma convert_node_error:
  assumes "label_error (node_labels nd) = Some msg"
  shows "convert_node cs ex nd = Inl (TypeError msg)"
proof (cases "node_labels nd")
  case Nil
  with assms show ?thesis by (simp add: label_error_def)
next
  case (Cons l ls)
  then have lb: "dict_get (labels nd) [] = l # ls" by (simp add: node_labels_def)
  show ?thesis
  proof (cases "\<exists>xs. l = PList xs")
    case True
    then obtain xs where l: "l = PList xs" by blast
    with assms Cons have "msg = ''unhashable type: '' @ [CHR 0x27] @ ''list'' @ [CHR 0x27]"
      by (simp add: label_error_def)
    with l lb show ?thesis
      by (simp add: convert_node_def Let_def node_color_def unhashable_list_def)
  next
    case False
    then obtain c where c: "node_color cs (l # ls) = Inr c"
      by (cases l) (simp_all add: node_color_def)
    from False have nl: "l \<noteq> PList xs" for xs by blast
    from assms Cons have le: "label_error (l # ls) = Some msg" by simp
    then obtain iv where iv: "find (\<lambda>iv. \<not> is_str (snd iv)) (enumerate 0 (l # ls)) = Some iv"
      and m: "msg = ''sequence item '' @ str_nat (fst iv) @ '': expected str instance, ''
                          @ type_name (snd iv) @ '' found''"
      unfolding label_error_join[of l ls, OF nl]
      by (cases "find (\<lambda>iv. \<not> is_str (snd iv)) (enumerate 0 (l # ls))") auto
    have "py_join '', '' (l # ls) = Inl (TypeError msg)"
      unfolding py_join_def check_strs_find iv m by simp
    with c lb show ?thesis
      by (simp add: convert_node_def Let_def)
  qed
qed

lemma first_label_error_None:
  "first_label_error nds = None \<longleftrightarrow> list_all labels_are_strings nds"
proof (cases "find (\<lambda>nd. \<not> labels_are_strings nd) nds")
  case None
  then have "list_all labels_are_strings nds"
    by (auto simp: find_None_iff list_all_iff)
  with None show ?thesis
    by (simp add: first_label_error_def)
next
  case (Some nd)
  then have "\<not> labels_are_strings nd" "nd \<in> set nds"
    by (auto simp: find_Some_iff)
  then have "label_error (node_labels nd) \<noteq> None" "\<not> list_all labels_are_strings nds"
    by (auto simp: label_error_None labels_are_strings_def list_all_iff)
  with Some show ?thesis
    by (simp add: first_label_error_def)
qed

lemma convert_nodes_error:
  "first_label_error nds = Some msg \<Longrightarrow> convert_nodes cs ex nds = Inl (TypeError msg)"
proof (induction nds)
  case Nil
  then show ?case by (simp add: first_label_error_def)
next
  case (Cons nd nds)
  show ?case
  proof (cases "labels_are_strings nd")
    case True
    then obtain cy where "convert_node cs ex nd = Inr cy"
      by (simp add: convert_node_Inr)
    moreover from True Cons.prems have "first_label_error nds = Some msg"
      by (simp add: first_label_error_def)
    ultimately show ?thesis
      using Cons.IH by simp
  next
    case False
    with Cons.prems have "label_error (node_labels nd) = Some msg"
      by (simp add: first_label_error_def)
    then show ?thesis
      by (simp add: convert_node_error)
  qed
qed

lemma convert_error:
  "first_label_error nodes = Some msg
     \<Longrightarrow> convert_to_cytoscape_format nodes rels ex cs = Inl (TypeError msg)"
  by (simp add: convert_to_cytoscape_format_def convert_nodes_error)

lemma resolved_layout_preset: "resolved_layout vt nodes layout \<in> preset_names"
  by (simp add: resolved_layout_def preset_names_def Let_def)

lemma preset_config:
  "l \<in> preset_names \<Longrightarrow> table_get LAYOUT_CONFIGS l d = table_get LAYOUT_CONFIGS l JNull"
  by (auto simp: preset_names_def table_get_def LAYOUT_CONFIGS_def)

lemma html_escape_markup_free: "set (concat (map html_escape_char s)) \<inter> markup_chars = {}"
  using html_escape_no_markup[of s] by (simp add: html_escape_chars)

lemma ex_mapped_payload:
  \<open>script_safe (json_dumps (json_of_elements ex_mapped)) = ''{"nodes": [{"data": {"id": "d1", "label": "Document", "labels": ["Document"], "color": "#3b82f6", "size": 20, "tooltip": "<strong>Document<'' @ [bslash] @ ''/strong><br>Type: Document", "properties": {}, "expanded": false}, "classes": ""}, {"data": {"id": "c1", "label": "Chunk", "labels": ["Chunk"], "color": "#8b5cf6", "size": 20, "tooltip": "<strong>Chunk<'' @ [bslash] @ ''/strong><br>Type: Chunk", "properties": {}, "expanded": false}, "classes": ""}], "edges": [{"data": {"id": "r1", "source": "d1", "target": "c1", "label": "HAS_CHUNK"}}]}''\<close>
  by code_simp

lemma cola_payload:
  \<open>script_safe (json_dumps (table_get LAYOUT_CONFIGS ''cola'' JNull)) = ''{"name": "cola", "animate": true, "animationDuration": 1000, "maxSimulationTime": 4000, "ungrabifyWhileSimulating": true, "fit": true, "avoidOverlap": true, "handleDisconnected": true, "convergenceThreshold": 0.01, "nodeSpacing": 50}''\<close>
  by code_simp

lemma ex_errors:
  "first_label_error [ex_d1, ex_list_label, ex_bad_label]
     = Some (''unhashable type: '' @ [CHR 0x27] @ ''list'' @ [CHR 0x27])"
  "first_label_error [ex_bad_label]
     = Some ''sequence item 1: expected str instance, int found''"
  "first_label_error [ex_d1, ex_c1] = None"
  by code_simp+

text \<open>
  Claim C7 (totality): \<open>render_cytoscape_graph\<close> returns one of three payloads, and the
  input fixes which one. For an empty node list it is the empty-state payload with the
  fixed message, and nothing is logged. Otherwise the nodes are capped and mapped. If a
  node among them has a label that is not a string, the mapping raises the
  \<^verbatim>\<open>TypeError\<close> of the first such node: \<^verbatim>\<open>unhashable type: 'list'\<close> when its first
  label is a list, else the message of \<^verbatim>\<open>str.join\<close> for its first label that is not a
  string. The error is then logged after the other records, and the result is the
  error-state payload holding the message with every character replaced as
  \<^verbatim>\<open>html.escape\<close> does, so with no \<^verbatim>\<open><\<close>, \<^verbatim>\<open>>\<close> or quote in it. If all the labels
  are strings, the mapping returns elements for the given nodes, in order, and the result
  is the graph payload holding the height, the elements serialised by \<^verbatim>\<open>json.dumps\<close>
  with \<^verbatim>\<open></\<close> replaced, and the configuration of the resolved layout serialised in the
  same way.
\<close>

theorem render_total:
  "(nodes = [] \<longrightarrow>
       render_cytoscape_graph nodes rels layout exo vt h = ([], Empty_html empty_state_message))
   \<and> (nodes \<noteq> [] \<longrightarrow>
        (\<forall>msg. first_label_error (cap_nodes vt nodes) = Some msg \<longrightarrow>
             convert_to_cytoscape_format (cap_nodes vt nodes) (cap_relationships vt nodes rels)
                 (expanded_or_empty exo) COLOR_SCHEME = Inl (TypeError msg)
           \<and> render_cytoscape_graph nodes rels layout exo vt h
               = (render_log vt nodes layout
                    @ [LogError (''Error rendering Cytoscape graph: '' @ msg)],
                  Error_html (concat (map html_escape_char msg)))
           \<and> set (concat (map html_escape_char msg)) \<inter> markup_chars = {})
      \<and> (first_label_error (cap_nodes vt nodes) = None \<longrightarrow>
            (\<exists>els. convert_to_cytoscape_format (cap_nodes vt nodes)
                       (cap_relationships vt nodes rels) (expanded_or_empty exo) COLOR_SCHEME
                     = Inr els
               \<and> render_cytoscape_graph nodes rels layout exo vt h
                   = (render_log vt nodes layout,
                      Graph_html (str_int h)
                        (script_safe (json_dumps (json_of_elements els)))
                        (script_safe (json_dumps
                           (table_get LAYOUT_CONFIGS (resolved_layout vt nodes layout) JNull))))
               \<and> map (\<lambda>cy. cy_id (node_data cy)) (el_nodes els)
                   = map node_id (cap_nodes vt nodes)))
      \<and> ((first_label_error (cap_nodes vt nodes) = None)
            = list_all labels_are_strings (cap_nodes vt nodes)))"
proof -
  let ?conv = "convert_to_cytoscape_format (cap_nodes vt nodes) (cap_relationships vt nodes rels)
                 (expanded_or_empty exo) COLOR_SCHEME"
  have a: "nodes = [] \<longrightarrow>
       render_cytoscape_graph nodes rels layout exo vt h = ([], Empty_html empty_state_message)"
    by (simp add: render_empty)
  have b: "?conv = Inl (TypeError msg)
           \<and> render_cytoscape_graph nodes rels layout exo vt h
               = (render_log vt nodes layout
                    @ [LogError (''Error rendering Cytoscape graph: '' @ msg)],
                  Error_html (concat (map html_escape_char msg)))
           \<and> set (concat (map html_escape_char msg)) \<inter> markup_chars = {}"
    if "nodes \<noteq> []" and "first_label_error (cap_nodes vt nodes) = Some msg" for msg
  proof -
    have c: "?conv = Inl (TypeError msg)"
      using that(2) by (rule convert_error)
    then have "render_cytoscape_graph nodes rels layout exo vt h
               = (render_log vt nodes layout
                    @ [LogError (''Error rendering Cytoscape graph: '' @ msg)],
                  Error_html (concat (map html_escape_char msg)))"
      by (simp add: render_nonempty[OF that(1)] render_error_log_def html_escape_chars)
    with c html_escape_markup_free show ?thesis by blast
  qed
  have c: "\<exists>els. ?conv = Inr els
               \<and> render_cytoscape_graph nodes rels layout exo vt h
                   = (render_log vt nodes layout,
                      Graph_html (str_int h)
                        (script_safe (json_dumps (json_of_elements els)))
                        (script_safe (json_dumps
                           (table_get LAYOUT_CONFIGS (resolved_layout vt nodes layout) JNull))))
               \<and> map (\<lambda>cy. cy_id (node_data cy)) (el_nodes els)
                   = map node_id (cap_nodes vt nodes)"
    if "nodes \<noteq> []" and "first_label_error (cap_nodes vt nodes) = None"
  proof -
    from that(2) have "list_all labels_are_strings (cap_nodes vt nodes)"
      by (simp add: first_label_error_None)
    then obtain els where els: "?conv = Inr els"
      using convert_ok by blast
    have p: "table_get LAYOUT_CONFIGS (resolved_layout vt nodes layout)
                 (table_get LAYOUT_CONFIGS ''cola'' JNull)
               = table_get LAYOUT_CONFIGS (resolved_layout vt nodes layout) JNull"
      by (rule preset_config[OF resolved_layout_preset])
    have "render_cytoscape_graph nodes rels layout exo vt h
                   = (render_log vt nodes layout,
                      Graph_html (str_int h)
                        (script_safe (json_dumps (json_of_elements els)))
                        (script_safe (json_dumps
                           (table_get LAYOUT_CONFIGS (resolved_layout vt nodes layout) JNull))))"
      using els
      by (simp add: render_nonempty[OF that(1)] build_html_template_def Let_def p)
    with els convert_ids[OF els] show ?thesis by blast
  qed
  from a b c first_label_error_None show ?thesis by blast
qed

theorem render_total_witness:
  \<open>render_cytoscape_graph [] ex_rels ''cola'' None ''data'' 720
     = ([], Empty_html ''No nodes to display. Upload and extract documents first.'')
   \<and> [ex_d1, ex_list_label, ex_bad_label] \<noteq> []
   \<and> first_label_error (cap_nodes ''data'' [ex_d1, ex_list_label, ex_bad_label])
       = Some (''unhashable type: '' @ [CHR 0x27] @ ''list'' @ [CHR 0x27])
   \<and> render_cytoscape_graph [ex_d1, ex_list_label, ex_bad_label] [] ''cola'' None ''data'' 720
       = ([LogError (''Error rendering Cytoscape graph: unhashable type: '' @ [CHR 0x27]
                     @ ''list'' @ [CHR 0x27])],
          Error_html ''unhashable type: &#x27;list&#x27;'')
   \<and> [ex_bad_label] \<noteq> []
   \<and> first_label_error (cap_nodes ''data'' [ex_bad_label])
       = Some ''sequence item 1: expected str instance, int found''
   \<and> render_cytoscape_graph [ex_bad_label] [] ''cola'' None ''data'' 720
       = ([LogError ''Error rendering Cytoscape graph: sequence item 1: expected str instance, int found''],
          Error_html ''sequence item 1: expected str instance, int found'')
   \<and> [ex_d1, ex_c1] \<noteq> []
   \<and> first_label_error (cap_nodes ''data'' [ex_d1, ex_c1]) = None
   \<and> render_cytoscape_graph [ex_d1, ex_c1] ex_rels ''cola'' None ''data'' 720
       = ([], Graph_html ''720''
                (''{"nodes": [{"data": {"id": "d1", "label": "Document", "labels": ["Document"], "color": "#3b82f6", "size": 20, "tooltip": "<strong>Document<'' @ [bslash] @ ''/strong><br>Type: Document", "properties": {}, "expanded": false}, "classes": ""}, {"data": {"id": "c1", "label": "Chunk", "labels": ["Chunk"], "color": "#8b5cf6", "size": 20, "tooltip": "<strong>Chunk<'' @ [bslash] @ ''/strong><br>Type: Chunk", "properties": {}, "expanded": false}, "classes": ""}], "edges": [{"data": {"id": "r1", "source": "d1", "target": "c1", "label": "HAS_CHUNK"}}]}'')
                ''{"name": "cola", "animate": true, "animationDuration": 1000, "maxSimulationTime": 4000, "ungrabifyWhileSimulating": true, "fit": true, "avoidOverlap": true, "handleDisconnected": true, "convergenceThreshold": 0.01, "nodeSpacing": 50}'')\<close>
proof -
  have l: "render_log ''data'' ns ''cola'' = []" "resolved_layout ''data'' ns ''cola'' = ''cola''" for ns
    by (simp_all add: render_log_def resolved_layout_def preset_names_def)
  have c: "cap_nodes ''data'' ns = ns" "cap_relationships ''data'' ns rs = rs" for ns rs
    by (simp_all add: cap_nodes_def cap_relationships_def)
  have h: "str_int 720 = ''720''"
    by (simp add: str_int_def str_nat.simps digit_char_def)
  have e1: "concat (map html_escape_char (''unhashable type: '' @ [CHR 0x27] @ ''list'' @ [CHR 0x27]))
              = ''unhashable type: &#x27;list&#x27;''"
    by (simp add: html_escape_char_def dquote_def)
  have e2: "concat (map html_escape_char ''sequence item 1: expected str instance, int found'')
              = ''sequence item 1: expected str instance, int found''"
    by (simp add: html_escape_char_def dquote_def)
  from render_total[of "[ex_d1, ex_c1]" ex_rels "''cola''" None "''data''" 720]
  obtain els where
    m: "convert_to_cytoscape_format [ex_d1, ex_c1] ex_rels {} COLOR_SCHEME = Inr els"
    and r: "render_cytoscape_graph [ex_d1, ex_c1] ex_rels ''cola'' None ''data'' 720
       = ([], Graph_html ''720'' (script_safe (json_dumps (json_of_elements els)))
                (script_safe (json_dumps (table_get LAYOUT_CONFIGS ''cola'' JNull))))"
    by (auto simp: ex_errors l c h expanded_or_empty_def)
  from m have "els = ex_mapped"
    by (simp add: ex_mapped_eq)
  with r have g: \<open>render_cytoscape_graph [ex_d1, ex_c1] ex_rels ''cola'' None ''data'' 720
       = ([], Graph_html ''720''
                (''{"nodes": [{"data": {"id": "d1", "label": "Document", "labels": ["Document"], "color": "#3b82f6", "size": 20, "tooltip": "<strong>Document<'' @ [bslash] @ ''/strong><br>Type: Document", "properties": {}, "expanded": false}, "classes": ""}, {"data": {"id": "c1", "label": "Chunk", "labels": ["Chunk"], "color": "#8b5cf6", "size": 20, "tooltip": "<strong>Chunk<'' @ [bslash] @ ''/strong><br>Type: Chunk", "properties": {}, "expanded": false}, "classes": ""}], "edges": [{"data": {"id": "r1", "source": "d1", "target": "c1", "label": "HAS_CHUNK"}}]}'')
                ''{"name": "cola", "animate": true, "animationDuration": 1000, "maxSimulationTime": 4000, "ungrabifyWhileSimulating": true, "fit": true, "avoidOverlap": true, "handleDisconnected": true, "convergenceThreshold": 0.01, "nodeSpacing": 50}'')\<close>
    by (simp only: ex_mapped_payload cola_payload)
  have E: "render_cytoscape_graph ns rs ''cola'' None ''data'' 720
             = (render_log ''data'' ns ''cola''
                  @ [LogError (''Error rendering Cytoscape graph: '' @ msg)],
                Error_html (concat (map html_escape_char msg)))"
    if "ns \<noteq> []" and "first_label_error (cap_nodes ''data'' ns) = Some msg" for ns rs msg
    using render_total[of ns rs "''cola''" None "''data''" 720] that by blast
  have w1: "render_cytoscape_graph [] ex_rels ''cola'' None ''data'' 720
     = ([], Empty_html ''No nodes to display. Upload and extract documents first.'')"
    using render_total[of "[]" ex_rels "''cola''" None "''data''" 720]
    by (simp add: empty_state_message_def)
  have w2: "render_cytoscape_graph [ex_d1, ex_list_label, ex_bad_label] [] ''cola'' None ''data'' 720
       = ([LogError (''Error rendering Cytoscape graph: unhashable type: '' @ [CHR 0x27]
                     @ ''list'' @ [CHR 0x27])],
          Error_html ''unhashable type: &#x27;list&#x27;'')"
    using E[of "[ex_d1, ex_list_label, ex_bad_label]"
        "''unhashable type: '' @ [CHR 0x27] @ ''list'' @ [CHR 0x27]" "[]"]
    by (simp add: c l ex_errors html_escape_char_def dquote_def)
  have w3: "render_cytoscape_graph [ex_bad_label] [] ''cola'' None ''data'' 720
       = ([LogError ''Error rendering Cytoscape graph: sequence item 1: expected str instance, int found''],
          Error_html ''sequence item 1: expected str instance, int found'')"
    using E[of "[ex_bad_label]" "''sequence item 1: expected str instance, int found''" "[]"]
    by (simp add: c l ex_errors html_escape_char_def dquote_def)
  have n2: "[ex_d1, ex_list_label, ex_bad_label] \<noteq> []" and n3: "[ex_bad_label] \<noteq> []"
    and n4: "[ex_d1, ex_c1] \<noteq> []"
    by simp_all
  have f2: "first_label_error (cap_nodes ''data'' [ex_d1, ex_list_label, ex_bad_label])
       = Some (''unhashable type: '' @ [CHR 0x27] @ ''list'' @ [CHR 0x27])"
    and f3: "first_label_error (cap_nodes ''data'' [ex_bad_label])
       = Some ''sequence item 1: expected str instance, int found''"
    and f4: "first_label_error (cap_nodes ''data'' [ex_d1, ex_c1]) = None"
    by (simp_all only: c ex_errors)
  from w1 n2 f2 w2 n3 f3 w3 n4 f4 g show ?thesis
    by (intro conjI)
qed

text \<open>
  Claim C5 (schema truncation): in the schema mode with more than 100 nodes, whose first
  100 have string labels, \<open>render_cytoscape_graph\<close> logs the warning of the limit and
  gives the element mapping the first 100 nodes, in input order, and the relationships
  with both endpoints among the ids of these nodes. The graph payload then holds exactly
  100 nodes, those of the first 100 inputs, and every edge in it has its source and its
  target among them.
\<close>

theorem schema_truncation:
  assumes "100 < length nodes" and "list_all labels_are_strings (take 100 nodes)"
  shows "\<exists>els. convert_to_cytoscape_format (take 100 nodes)
                 (filter (\<lambda>r. start_node_element_id r \<in> node_ids_of (take 100 nodes)
                              \<and> end_node_element_id r \<in> node_ids_of (take 100 nodes)) rels)
                 (expanded_or_empty exo) COLOR_SCHEME = Inr els
           \<and> render_cytoscape_graph nodes rels layout exo ''schema'' h
               = (render_log ''schema'' nodes layout,
                  build_html_template els (resolved_layout ''schema'' nodes layout) ''schema'' h)
           \<and> graph_elements (snd (render_cytoscape_graph nodes rels layout exo ''schema'' h))
               = script_safe (json_dumps (json_of_elements els))
           \<and> hd (render_log ''schema'' nodes layout) = cap_warning (length nodes)
           \<and> length (el_nodes els) = 100
           \<and> map (\<lambda>cy. cy_id (node_data cy)) (el_nodes els) = map node_id (take 100 nodes)
           \<and> list_all (\<lambda>e. ce_source (edge_data e) \<in> set (map (\<lambda>cy. cy_id (node_data cy)) (el_nodes els))
                          \<and> ce_target (edge_data e) \<in> set (map (\<lambda>cy. cy_id (node_data cy)) (el_nodes els))
                          \<and> Some (ce_source (edge_data e)) \<in> node_ids_of (take 100 nodes)
                          \<and> Some (ce_target (edge_data e)) \<in> node_ids_of (take 100 nodes))
                 (el_edges els)"
proof -
  let ?ns = "take 100 nodes"
  let ?rs = "filter (\<lambda>r. start_node_element_id r \<in> node_ids_of ?ns
                              \<and> end_node_element_id r \<in> node_ids_of ?ns) rels"
  from assms(1) have ne: "nodes \<noteq> []" by auto
  from assms(1) have cn: "cap_nodes ''schema'' nodes = ?ns"
    and cr: "cap_relationships ''schema'' nodes rels = ?rs"
    by (simp_all add: cap_nodes_def cap_relationships_def)
  from assms(2) obtain els where
    els: "convert_to_cytoscape_format ?ns ?rs (expanded_or_empty exo) COLOR_SCHEME = Inr els"
    using convert_ok by blast
  have r: "render_cytoscape_graph nodes rels layout exo ''schema'' h
               = (render_log ''schema'' nodes layout,
                  build_html_template els (resolved_layout ''schema'' nodes layout) ''schema'' h)"
    using els by (simp add: render_nonempty[OF ne] cn cr)
  have g: "graph_elements (snd (render_cytoscape_graph nodes rels layout exo ''schema'' h))
               = script_safe (json_dumps (json_of_elements els))"
    by (simp add: r build_html_template_def)
  have w: "hd (render_log ''schema'' nodes layout) = cap_warning (length nodes)"
    using assms(1) by (simp add: render_log_def)
  have len: "length (el_nodes els) = 100"
    using convert_length[OF els] assms(1) by simp
  show ?thesis
    using els r g w len convert_ids[OF els] convert_edges_closed[OF els] by blast
qed

lemma ex_schema_typed: "list_all labels_are_strings (take 100 ex_schema_nodes)"
  by (simp add: ex_schema_nodes_def take_map list_all_iff labels_are_strings_def node_labels_def
      ex_node_def dict_get_def)

lemma ex_schema_edges:
  "map (\<lambda>e. ce_id (edge_data e))
     (concat (map (convert_edge (node_ids_of (take 100 ex_schema_nodes)))
        (filter (\<lambda>r. start_node_element_id r \<in> node_ids_of (take 100 ex_schema_nodes)
                     \<and> end_node_element_id r \<in> node_ids_of (take 100 ex_schema_nodes))
           ex_schema_rels))) = [''r1'']"
  by code_simp

theorem schema_truncation_witness:
  "100 < length ex_schema_nodes
   \<and> list_all labels_are_strings (take 100 ex_schema_nodes)
   \<and> (\<exists>els. render_cytoscape_graph ex_schema_nodes ex_schema_rels ''cola'' None ''schema'' 720
               = ([cap_warning 150], build_html_template els ''cola'' ''schema'' 720)
          \<and> length (el_nodes els) = 100
          \<and> map (\<lambda>cy. cy_id (node_data cy)) (el_nodes els) = map str_nat [0..<100]
          \<and> map (\<lambda>e. ce_id (edge_data e)) (el_edges els) = [''r1''])"
proof -
  have l: "100 < length ex_schema_nodes"
    by (simp add: ex_schema_nodes_def)
  have lg: "render_log ''schema'' ex_schema_nodes ''cola'' = [cap_warning 150]"
    by (simp add: render_log_def ex_schema_nodes_def preset_names_def cap_nodes_def)
  have rl: "resolved_layout ''schema'' ex_schema_nodes ''cola'' = ''cola''"
    by (simp add: resolved_layout_def preset_names_def)
  have ids: "map node_id (take 100 ex_schema_nodes) = map str_nat [0..<100]"
    by (simp add: ex_schema_nodes_def take_map node_id_def ex_node_def dict_get_def take_upt)
  from schema_truncation[OF l ex_schema_typed, of ex_schema_rels None "''cola''" 720]
  obtain els where
    c: "convert_to_cytoscape_format (take 100 ex_schema_nodes)
          (filter (\<lambda>r. start_node_element_id r \<in> node_ids_of (take 100 ex_schema_nodes)
                       \<and> end_node_element_id r \<in> node_ids_of (take 100 ex_schema_nodes))
             ex_schema_rels)
          (expanded_or_empty None) COLOR_SCHEME = Inr els"
    and r: "render_cytoscape_graph ex_schema_nodes ex_schema_rels ''cola'' None ''schema'' 720
               = (render_log ''schema'' ex_schema_nodes ''cola'',
                  build_html_template els (resolved_layout ''schema'' ex_schema_nodes ''cola'')
                    ''schema'' 720)"
    and n: "length (el_nodes els) = 100"
    and i: "map (\<lambda>cy. cy_id (node_data cy)) (el_nodes els) = map node_id (take 100 ex_schema_nodes)"
    by blast
  from c have "map (\<lambda>e. ce_id (edge_data e)) (el_edges els) = [''r1'']"
    using ex_schema_edges by (auto simp: convert_Inr)
  with r n i show ?thesis
    using l ex_schema_typed by (auto simp: lg rl ids)
qed

text \<open>
  Claim C6 (unknown layout), as amended: for a layout name outside the preset table and a
  node list that is not empty, \<open>render_cytoscape_graph\<close> returns a payload, logs the
  warning of the unknown layout, and whenever the payload is the graph payload, which it
  is when the labels are strings, the layout parameters in it are those of the
  \<^verbatim>\<open>cola\<close> preset.
\<close>

theorem unknown_layout_fallback:
  assumes "layout \<notin> preset_names" and "nodes \<noteq> []"
  shows "unknown_layout_warning layout \<in> set (fst (render_cytoscape_graph nodes rels layout exo vt h))
       \<and> (\<forall>hh ee ll. snd (render_cytoscape_graph nodes rels layout exo vt h) = Graph_html hh ee ll
              \<longrightarrow> ll = cola_layout_json)
       \<and> (list_all labels_are_strings (cap_nodes vt nodes)
              \<longrightarrow> (\<exists>ee. snd (render_cytoscape_graph nodes rels layout exo vt h)
                           = Graph_html (str_int h) ee cola_layout_json))"
proof -
  have w: "unknown_layout_warning layout \<in> set (render_log vt nodes layout)"
    using assms(1) by (simp add: render_log_def)
  have t: "build_html_template els ''cola'' vt h
             = Graph_html (str_int h) (script_safe (json_dumps (json_of_elements els))) cola_layout_json"
    for els
    using graph_layout_cola[of els vt h] by (simp add: build_html_template_def Let_def)
  show ?thesis
  proof (cases "convert_to_cytoscape_format (cap_nodes vt nodes) (cap_relationships vt nodes rels)
             (expanded_or_empty exo) COLOR_SCHEME")
    case (Inl e)
    then have "\<not> list_all labels_are_strings (cap_nodes vt nodes)"
      using convert_ok[of "cap_nodes vt nodes" "cap_relationships vt nodes rels"
          "expanded_or_empty exo" COLOR_SCHEME] by auto
    with Inl w show ?thesis
      by (simp add: render_nonempty[OF assms(2)])
  next
    case (Inr els)
    with w show ?thesis
      by (simp add: render_nonempty[OF assms(2)] resolved_unknown[OF assms(1)] t)
  qed
qed

text \<open>
  Claim C6 as stated fails on an empty node list: the function returns the empty-state
  payload before it looks at the layout, so nothing is logged and the payload has no
  layout parameters.
\<close>

theorem unknown_layout_counterexample:
  "render_cytoscape_graph [] [] ''foo'' None ''data'' 720
     = ([], Empty_html ''No nodes to display. Upload and extract documents first.'')
   \<and> ''foo'' \<notin> preset_names"
  by (simp add: render_empty empty_state_message_def preset_names_def)

theorem unknown_layout_fallback_witness:
  \<open>''foo'' \<notin> preset_names \<and> [ex_d1, ex_c1] \<noteq> []
   \<and> fst (render_cytoscape_graph [ex_d1, ex_c1] ex_rels ''foo'' None ''data'' 720)
       = [LogWarning (''Unknown layout: foo, falling back to '' @ [CHR 0x27] @ ''cola'' @ [CHR 0x27])]
   \<and> list_all labels_are_strings (cap_nodes ''data'' [ex_d1, ex_c1])
   \<and> (\<exists>ee. snd (render_cytoscape_graph [ex_d1, ex_c1] ex_rels ''foo'' None ''data'' 720)
         = Graph_html ''720'' ee
             ''{"name": "cola", "animate": true, "animationDuration": 1000, "maxSimulationTime": 4000, "ungrabifyWhileSimulating": true, "fit": true, "avoidOverlap": true, "handleDisconnected": true, "convergenceThreshold": 0.01, "nodeSpacing": 50}'')\<close>
proof -
  have p: "''foo'' \<notin> preset_names"
    by (simp add: preset_names_def)
  have n: "[ex_d1, ex_c1] \<noteq> []"
    by simp
  have t: "list_all labels_are_strings (cap_nodes ''data'' [ex_d1, ex_c1])"
    by (simp add: cap_nodes_def labels_are_strings_def node_labels_def example_defs dict_get_def)
  have j: \<open>cola_layout_json = ''{"name": "cola", "animate": true, "animationDuration": 1000, "maxSimulationTime": 4000, "ungrabifyWhileSimulating": true, "fit": true, "avoidOverlap": true, "handleDisconnected": true, "convergenceThreshold": 0.01, "nodeSpacing": 50}''\<close>
    by (simp add: cola_layout_json_def script_safe_def table_get_def LAYOUT_CONFIGS_def
        json_string_def json_escape_char_def dquote_def bslash_def str_int_def str_nat.simps
        digit_char_def)
  have g: "fst (render_cytoscape_graph [ex_d1, ex_c1] ex_rels ''foo'' None ''data'' 720)
       = [LogWarning (''Unknown layout: foo, falling back to '' @ [CHR 0x27] @ ''cola'' @ [CHR 0x27])]"
    using ex_mapped_eq
    by (simp add: render_nonempty render_log_def preset_names_def cap_nodes_def
        cap_relationships_def expanded_or_empty_def unknown_layout_warning_def)
  have h: "str_int 720 = ''720''"
    by (simp add: str_int_def str_nat.simps digit_char_def)
  from unknown_layout_fallback[OF p n, of ex_rels None "''data''" 720]
  show ?thesis
    using p t g by (simp add: j h)
qed

lemma json_nodes_properties:
  "map (\<lambda>j. json_field (json_field j ''data'') ''properties'')
       (json_items (json_field (json_of_elements els) ''nodes''))
     = map (\<lambda>cy. properties_json (cy_properties (node_data cy))) (el_nodes els)"
  by (simp add: json_of_elements_def json_field_def json_items_def json_of_cy_node_def
      properties_json_def)

text \<open>
  Claim C9 (embedded properties): when the graph payload is emitted, the elements in it
  are the serialisation by \<^verbatim>\<open>json.dumps\<close> of the mapped elements, changed only by
  the replacement of \<^verbatim>\<open></\<close> with \<^verbatim>\<open><\/\<close>; the \<open>properties\<close> field of each
  mapped node is the whole property dictionary of its node, reserved keys included, and
  that is the value under \<^verbatim>\<open>data.properties\<close> in the JSON that is serialised. The
  replacement leaves no \<^verbatim>\<open></\<close> in the emitted text. The reserved keys are left
  out of the tooltip only.
\<close>

theorem properties_embedded:
  assumes "nodes \<noteq> []" and "list_all labels_are_strings (cap_nodes vt nodes)"
  shows "\<exists>els. convert_to_cytoscape_format (cap_nodes vt nodes) (cap_relationships vt nodes rels)
                 (expanded_or_empty exo) COLOR_SCHEME = Inr els
           \<and> snd (render_cytoscape_graph nodes rels layout exo vt h)
               = build_html_template els (resolved_layout vt nodes layout) vt h
           \<and> graph_elements (snd (render_cytoscape_graph nodes rels layout exo vt h))
               = py_replace ''</'' [CHR ''<'', bslash, CHR ''/''] (json_dumps (json_of_elements els))
           \<and> map (\<lambda>cy. cy_properties (node_data cy)) (el_nodes els)
               = map node_props (cap_nodes vt nodes)
           \<and> map (\<lambda>j. json_field (json_field j ''data'') ''properties'')
                  (json_items (json_field (json_of_elements els) ''nodes''))
               = map (\<lambda>nd. properties_json (node_props nd)) (cap_nodes vt nodes)
           \<and> \<not> sublist ''</'' (graph_elements (snd (render_cytoscape_graph nodes rels layout exo vt h)))"
proof -
  from assms(2) obtain els where
    els: "convert_to_cytoscape_format (cap_nodes vt nodes) (cap_relationships vt nodes rels)
            (expanded_or_empty exo) COLOR_SCHEME = Inr els"
    using convert_ok by blast
  have r: "snd (render_cytoscape_graph nodes rels layout exo vt h)
               = build_html_template els (resolved_layout vt nodes layout) vt h"
    using els by (simp add: render_nonempty[OF assms(1)])
  have g: "graph_elements (snd (render_cytoscape_graph nodes rels layout exo vt h))
               = py_replace ''</'' [CHR ''<'', bslash, CHR ''/''] (json_dumps (json_of_elements els))"
    by (simp add: r build_html_template_def script_safe_def)
  have p: "map (\<lambda>cy. cy_properties (node_data cy)) (el_nodes els)
               = map node_props (cap_nodes vt nodes)"
    using els by (rule convert_fields) (simp add: convert_node_Inr)
  have "map (\<lambda>cy. properties_json (cy_properties (node_data cy))) (el_nodes els)
          = map properties_json (map (\<lambda>cy. cy_properties (node_data cy)) (el_nodes els))"
    by simp
  also have "\<dots> = map (\<lambda>nd. properties_json (node_props nd)) (cap_nodes vt nodes)"
    by (simp add: p)
  finally have j: "map (\<lambda>j. json_field (json_field j ''data'') ''properties'')
                  (json_items (json_field (json_of_elements els) ''nodes''))
               = map (\<lambda>nd. properties_json (node_props nd)) (cap_nodes vt nodes)"
    by (simp add: json_nodes_properties)
  have k: "\<not> sublist ''</'' (graph_elements (snd (render_cytoscape_graph nodes rels layout exo vt h)))"
    by (simp add: r build_html_template_def script_safe_closed)
  from els r g p j k show ?thesis by blast
qed

lemma ex_reserved_payload:
  \<open>graph_elements (snd (render_cytoscape_graph [ex_reserved] [] ''cola'' None ''data'' 720))
     = ''{"nodes": [{"data": {"id": "n1", "label": "A", "labels": ["Person"], "color": "#10b981", "size": 20, "tooltip": "<strong>A<'' @ [bslash] @ ''/strong><br>Type: Person<br>name: A", "properties": {"text": "<'' @ [bslash] @ ''/script><b>", "embedding": "e", "summary": "s", "name": "A"}, "expanded": false}, "classes": ""}], "edges": []}''\<close>
  by (simp add: render_cytoscape_graph_def build_html_template_def Let_def script_safe_def
      table_has_def LAYOUT_CONFIGS_def mapping_eval ex_reserved_def ex_node_def
      json_of_elements_def json_of_cy_node_def json_string_def json_escape_char_def bslash_def)

theorem properties_embedded_witness:
  \<open>[ex_reserved] \<noteq> []
   \<and> list_all labels_are_strings (cap_nodes ''data'' [ex_reserved])
   \<and> (\<exists>els. map (\<lambda>cy. cy_properties (node_data cy)) (el_nodes els)
               = [[(''text'', PStr ''</script><b>''), (''embedding'', PStr ''e''),
                   (''summary'', PStr ''s''), (''name'', PStr ''A'')]]
          \<and> graph_elements (snd (render_cytoscape_graph [ex_reserved] [] ''cola'' None ''data'' 720))
              = py_replace ''</'' [CHR ''<'', bslash, CHR ''/''] (json_dumps (json_of_elements els)))
   \<and> graph_elements (snd (render_cytoscape_graph [ex_reserved] [] ''cola'' None ''data'' 720))
       = ''{"nodes": [{"data": {"id": "n1", "label": "A", "labels": ["Person"], "color": "#10b981", "size": 20, "tooltip": "<strong>A<'' @ [bslash] @ ''/strong><br>Type: Person<br>name: A", "properties": {"text": "<'' @ [bslash] @ ''/script><b>", "embedding": "e", "summary": "s", "name": "A"}, "expanded": false}, "classes": ""}], "edges": []}''\<close>
proof -
  have n: "[ex_reserved] \<noteq> []"
    by simp
  have t: "list_all labels_are_strings (cap_nodes ''data'' [ex_reserved])"
    by (simp add: cap_nodes_def labels_are_strings_def node_labels_def ex_reserved_def ex_node_def
        dict_get_def)
  have p: "map node_props (cap_nodes ''data'' [ex_reserved])
             = [[(''text'', PStr ''</script><b>''), (''embedding'', PStr ''e''),
                 (''summary'', PStr ''s''), (''name'', PStr ''A'')]]"
    by (simp add: cap_nodes_def node_props_def ex_reserved_def ex_node_def dict_get_def)
  from properties_embedded[OF n t, of "[]" None "''cola''" 720]
  obtain els where
    a: "map (\<lambda>cy. cy_properties (node_data cy)) (el_nodes els)
          = map node_props (cap_nodes ''data'' [ex_reserved])"
    and b: "graph_elements (snd (render_cytoscape_graph [ex_reserved] [] ''cola'' None ''data'' 720))
          = py_replace ''</'' [CHR ''<'', bslash, CHR ''/''] (json_dumps (json_of_elements els))"
    by blast
  from a have a': "map (\<lambda>cy. cy_properties (node_data cy)) (el_nodes els)
               = [[(''text'', PStr ''</script><b>''), (''embedding'', PStr ''e''),
                   (''summary'', PStr ''s''), (''name'', PStr ''A'')]]"
    by (simp only: p)
  from a' b have "\<exists>els. map (\<lambda>cy. cy_properties (node_data cy)) (el_nodes els)
               = [[(''text'', PStr ''</script><b>''), (''embedding'', PStr ''e''),
                   (''summary'', PStr ''s''), (''name'', PStr ''A'')]]
          \<and> graph_elements (snd (render_cytoscape_graph [ex_reserved] [] ''cola'' None ''data'' 720))
              = py_replace ''</'' [CHR ''<'', bslash, CHR ''/''] (json_dumps (json_of_elements els))"
    by (intro exI[of _ els] conjI)
  with n t ex_reserved_payload show ?thesis
    by (intro conjI)
qed

end
